theory Spec2Isabelle
  imports Complex_Main "HOL-Library.Multiset"
begin

section \<open>Data model\<close>

text \<open>
  The module \<^verbatim>\<open>halotools/mock_observables/observables.py\<close> works on numpy arrays of floats.
  A float is modelled by a real number. A per-bin estimate that numpy leaves non-finite
  (\<^verbatim>\<open>inf\<close> or \<^verbatim>\<open>nan\<close>, from a division by zero) is the value \<open>None\<close> of type
  \<open>real option\<close>. A period entry is a real or \<^verbatim>\<open>np.inf\<close>.

  The Python exceptions the functions can raise are values of the type \<open>error\<close>.
\<close>

datatype error =
    ValueError string
  | AttributeError string
  | TypeError string
  | IndexError string
  | ZeroDivisionError

datatype ext = Fin real | PInf

text \<open>
  A point set is an \<^verbatim>\<open>Npts x k\<close> array: the number of columns and the list of rows.
\<close>

datatype sample = Sample (ncols: nat) (rows: "real list list")

definition len :: "sample \<Rightarrow> nat" where
  "len s = length (rows s)"

section \<open>numpy helpers\<close>

text \<open>\<^verbatim>\<open>np.diff\<close> on a one-dimensional array: empty for fewer than two entries.\<close>

definition np_diff :: "real list \<Rightarrow> real list" where
  "np_diff xs = map2 (\<lambda>a b. b - a) xs (tl xs)"

text \<open>Division of numpy floats: a zero divisor gives a non-finite value.\<close>

definition np_div :: "real \<Rightarrow> real \<Rightarrow> real option" where
  "np_div a b = (if b = 0 then None else Some (a / b))"

definition nf_sub :: "real option \<Rightarrow> real option \<Rightarrow> real option" where
  "nf_sub x y = (case x of None \<Rightarrow> None
                 | Some a \<Rightarrow> (case y of None \<Rightarrow> None | Some b \<Rightarrow> Some (a - b)))"

definition nf_add_const :: "real option \<Rightarrow> real \<Rightarrow> real option" where
  "nf_add_const x c = map_option (\<lambda>a. a + c) x"

definition map3 :: "('a \<Rightarrow> 'b \<Rightarrow> 'c \<Rightarrow> 'd) \<Rightarrow> 'a list \<Rightarrow> 'b list \<Rightarrow> 'c list \<Rightarrow> 'd list" where
  "map3 f xs ys zs = map (\<lambda>(x, y, z). f x y z) (zip xs (zip ys zs))"

section \<open>The correlation estimator\<close>

definition list_estimators :: "string list" where
  "list_estimators = [''Natural'', ''Davis-Peebles'', ''Hewett'', ''Hamilton'', ''Landy-Szalay'']"

text \<open>
  \<^verbatim>\<open>TP_estimator(DD,DR,RR,factor,estimator)\<close>, the same in
  \<^verbatim>\<open>two_point_correlation_function\<close> and in its jackknife variant. \<^verbatim>\<open>factor\<close> is a
  Python float, so \<^verbatim>\<open>1.0/factor\<close> raises \<^verbatim>\<open>ZeroDivisionError\<close> at zero; the arrays are
  numpy arrays, whose division by zero gives a non-finite entry.
\<close>

definition TP_estimator ::
  "real list \<Rightarrow> real list \<Rightarrow> real list \<Rightarrow> real \<Rightarrow> string \<Rightarrow> error + real option list" where
  "TP_estimator DD DR RR factor estimator =
    (if estimator = ''Natural'' then
       (if factor ^ 2 = 0 then Inl ZeroDivisionError
        else Inr (map2 (\<lambda>dd rr. nf_add_const (np_div ((1 / factor ^ 2) * dd) rr) (- 1)) DD RR))
     else if estimator = ''Davis-Peebles'' then
       (if factor = 0 then Inl ZeroDivisionError
        else Inr (map2 (\<lambda>dd dr. nf_add_const (np_div ((1 / factor) * dd) dr) (- 1)) DD DR))
     else if estimator = ''Hewett'' then
       (if factor ^ 2 = 0 \<or> factor = 0 then Inl ZeroDivisionError
        else Inr (map3 (\<lambda>dd dr rr.
               nf_sub (np_div ((1 / factor ^ 2) * dd) rr) (np_div ((1 / factor) * dr) rr))
             DD DR RR))
     else if estimator = ''Hamilton'' then
       Inr (map3 (\<lambda>dd dr rr. nf_add_const (np_div (dd * rr) (dr * dr)) (- 1)) DD DR RR)
     else if estimator = ''Landy-Szalay'' then
       (if factor ^ 2 = 0 \<or> factor = 0 then Inl ZeroDivisionError
        else Inr (map3 (\<lambda>dd dr rr.
               nf_add_const
                 (nf_sub (np_div ((1 / factor ^ 2) * dd) rr) (np_div ((1 / factor) * 2 * dr) rr))
                 1)
             DD DR RR))
     else Inl (ValueError ''unsupported estimator!''))"

text \<open>
  The five formulas as the specification writes them, per bin. The value is \<open>None\<close>
  (non-finite) where the denominator of the formula vanishes.
\<close>

definition spec_xi :: "string \<Rightarrow> real \<Rightarrow> real \<Rightarrow> real \<Rightarrow> real \<Rightarrow> real option" where
  "spec_xi estimator f dd dr rr =
    (if estimator = ''Natural'' then
       (if rr = 0 then None else Some (dd / (f ^ 2 * rr) - 1))
     else if estimator = ''Davis-Peebles'' then
       (if dr = 0 then None else Some (dd / (f * dr) - 1))
     else if estimator = ''Hewett'' then
       (if rr = 0 then None else Some (dd / (f ^ 2 * rr) - dr / (f * rr)))
     else if estimator = ''Hamilton'' then
       (if dr = 0 then None else Some (dd * rr / dr ^ 2 - 1))
     else
       (if rr = 0 then None else Some (dd / (f ^ 2 * rr) - 2 * dr / (f * rr) + 1)))"

section \<open>Arrays, periods and chunks\<close>

text \<open>
  Arithmetic and comparisons on period entries: \<^verbatim>\<open>np.min(period)\<close>, \<^verbatim>\<open>max(period)\<close>,
  \<^verbatim>\<open>np.min(period)/2.0\<close>, \<^verbatim>\<open>x > y\<close>, \<^verbatim>\<open>period.prod()\<close> and \<^verbatim>\<open>N/global_volume\<close>.
  Box lengths are positive, so a product with an infinite entry is infinite.
\<close>

fun ext_min2 :: "ext \<Rightarrow> ext \<Rightarrow> ext" where
  "ext_min2 (Fin a) (Fin b) = Fin (min a b)"
| "ext_min2 (Fin a) PInf = Fin a"
| "ext_min2 PInf y = y"

fun ext_max2 :: "ext \<Rightarrow> ext \<Rightarrow> ext" where
  "ext_max2 (Fin a) (Fin b) = Fin (max a b)"
| "ext_max2 (Fin a) PInf = PInf"
| "ext_max2 PInf y = PInf"

definition ext_min :: "ext list \<Rightarrow> ext" where
  "ext_min xs = fold ext_min2 (tl xs) (hd xs)"

definition ext_max :: "ext list \<Rightarrow> ext" where
  "ext_max xs = fold ext_max2 (tl xs) (hd xs)"

fun ext_half :: "ext \<Rightarrow> ext" where
  "ext_half (Fin a) = Fin (a / 2)"
| "ext_half PInf = PInf"

fun gt_ext :: "real \<Rightarrow> ext \<Rightarrow> bool" where
  "gt_ext r (Fin a) = (r > a)"
| "gt_ext r PInf = False"

fun ext_mul :: "ext \<Rightarrow> ext \<Rightarrow> ext" where
  "ext_mul (Fin a) (Fin b) = Fin (a * b)"
| "ext_mul (Fin a) PInf = PInf"
| "ext_mul PInf y = PInf"

definition ext_prod :: "ext list \<Rightarrow> ext" where
  "ext_prod xs = foldr ext_mul xs (Fin 1)"

fun div_ext :: "real \<Rightarrow> ext \<Rightarrow> real" where
  "div_ext x (Fin v) = x / v"
| "div_ext x PInf = 0"

text \<open>
  \<^verbatim>\<open>np.all(a == b)\<close> on two point sets. numpy compares element-wise after broadcasting
  an axis of length one; where the shapes cannot be broadcast the comparison
  \<^verbatim>\<open>a == b\<close> of the numpy the module was written for is the scalar \<^verbatim>\<open>False\<close>.
\<close>

definition broadcastable :: "nat \<Rightarrow> nat \<Rightarrow> bool" where
  "broadcastable m n = (m = n \<or> m = 1 \<or> n = 1)"

definition bdim :: "nat \<Rightarrow> nat \<Rightarrow> nat" where
  "bdim m n = (if m = 1 then n else m)"

definition bget :: "'a list \<Rightarrow> nat \<Rightarrow> 'a" where
  "bget xs i = (if length xs = 1 then xs ! 0 else xs ! i)"

definition np_all_eq :: "sample \<Rightarrow> sample \<Rightarrow> bool" where
  "np_all_eq a b =
    (broadcastable (len a) (len b) \<and> broadcastable (ncols a) (ncols b) \<and>
     list_all (\<lambda>i. list_all (\<lambda>j. bget (bget (rows a) i) j = bget (bget (rows b) i) j)
                      [0..<bdim (ncols a) (ncols b)])
              [0..<bdim (len a) (len b)])"

text \<open>
  \<^verbatim>\<open>np.array_split(ary, N)\<close>: the first \<open>n mod N\<close> sections have \<open>n div N + 1\<close> rows, the
  others \<open>n div N\<close>; it raises \<^verbatim>\<open>ValueError\<close> for \<open>N \<le> 0\<close>, which the callers below test.
\<close>

definition split_sizes :: "nat \<Rightarrow> nat \<Rightarrow> nat list" where
  "split_sizes n T = replicate (n mod T) (n div T + 1) @ replicate (T - n mod T) (n div T)"

fun chop :: "nat list \<Rightarrow> 'a list \<Rightarrow> 'a list list" where
  "chop [] xs = []"
| "chop (n # ns) xs = take n xs # chop ns (drop n xs)"

definition array_split :: "sample \<Rightarrow> nat \<Rightarrow> sample list" where
  "array_split s T = map (Sample (ncols s)) (chop (split_sizes (len s) T) (rows s))"

text \<open>\<^verbatim>\<open>np.sum(list_of_arrays, axis=0)\<close>: the element-wise sum of the arrays.\<close>

fun np_sum_axis0 :: "real list list \<Rightarrow> real list" where
  "np_sum_axis0 [] = []"
| "np_sum_axis0 [r] = r"
| "np_sum_axis0 (r # rs) = map2 (+) r (np_sum_axis0 rs)"

text \<open>
  Down-sampling: \<^verbatim>\<open>inds = np.arange(0,len(s)); np.random.shuffle(inds);
  inds = inds[0:max_sample_size]; s[inds]\<close>. The shuffle is a parameter that threads the
  state of the random generator.
\<close>

type_synonym 'g shuffler = "'g \<Rightarrow> nat list \<Rightarrow> nat list \<times> 'g"

definition down_sample :: "'g shuffler \<Rightarrow> 'g \<Rightarrow> sample \<Rightarrow> nat \<Rightarrow> sample \<times> 'g" where
  "down_sample shuffle g s m =
    (case shuffle g [0..<len s] of
       (inds, g') \<Rightarrow> (Sample (ncols s) (map (\<lambda>i. rows s ! i) (take m inds)), g'))"

text \<open>
  The external pair counter \<^verbatim>\<open>npairs(sample1, sample2, rbins, period=period)\<close>, a
  parameter: the cumulative pair counts at the bin edges.
\<close>

type_synonym pair_counter = "sample \<Rightarrow> sample \<Rightarrow> real list \<Rightarrow> ext list \<Rightarrow> real list"

text \<open>
  \<^verbatim>\<open>args = [[chunk,other,rbins,period] for chunk in np.array_split(s,N_threads)]\<close> and
  \<^verbatim>\<open>np.sum(pool.map(_npairs_wrapper,args),axis=0)\<close>.
\<close>

definition chunked_npairs ::
  "pair_counter \<Rightarrow> nat \<Rightarrow> sample \<Rightarrow> sample \<Rightarrow> real list \<Rightarrow> ext list \<Rightarrow> real list" where
  "chunked_npairs npairs T s other rbins period =
     np_sum_axis0 (map (\<lambda>chunk. npairs chunk other rbins period) (array_split s T))"

definition array_split_error :: error where
  "array_split_error = ValueError ''number sections must be larger than 0.''"

section \<open>two_point_correlation_function\<close>

text \<open>\<^verbatim>\<open>pair_counts(sample1, sample2, rbins, period, N_thread)\<close>: the data-data counts.\<close>

definition pair_counts ::
  "pair_counter \<Rightarrow> sample \<Rightarrow> sample \<Rightarrow> real list \<Rightarrow> ext list \<Rightarrow> int
     \<Rightarrow> error + (real list \<times> real list \<times> real list)" where
  "pair_counts npairs sample1 sample2 rbins period N_threads =
    (if N_threads = 1 then
       (let D1D1 = np_diff (npairs sample1 sample1 rbins period) in
        if np_all_eq sample1 sample2 then Inr (D1D1, D1D1, D1D1)
        else Inr (D1D1,
                  np_diff (npairs sample1 sample2 rbins period),
                  np_diff (npairs sample2 sample2 rbins period)))
     else if N_threads \<le> 0 then Inl array_split_error
     else
       (let T = nat N_threads;
            D1D1 = np_diff (chunked_npairs npairs T sample1 sample1 rbins period) in
        if np_all_eq sample1 sample2 then Inr (D1D1, D1D1, D1D1)
        else Inr (D1D1,
                  np_diff (chunked_npairs npairs T sample1 sample2 rbins period),
                  np_diff (chunked_npairs npairs T sample2 sample2 rbins period))))"

text \<open>
  \<^verbatim>\<open>nball_volume(R,k) = (pi**(k/2.0)/gamma(k/2.0+1.0))*R**k\<close>. The function
  \<^verbatim>\<open>math.gamma\<close> is a parameter.
\<close>

definition nball_volume :: "(real \<Rightarrow> real) \<Rightarrow> real \<Rightarrow> nat \<Rightarrow> real" where
  "nball_volume gam R k = (pi powr (real k / 2) / gam (real k / 2 + 1)) * R ^ k"

text \<open>
  The body shared by the first two branches of \<^verbatim>\<open>random_counts\<close> (no PBCs; PBCs and
  randoms): the counts against the random catalogue.
\<close>

definition counted_randoms ::
  "pair_counter \<Rightarrow> sample \<Rightarrow> sample \<Rightarrow> sample \<Rightarrow> real list \<Rightarrow> ext list \<Rightarrow> int
     \<Rightarrow> error + (real list \<times> real list option \<times> real list)" where
  "counted_randoms npairs sample1 sample2 randoms rbins period N_threads =
    (if N_threads = 1 then
       (let RR = np_diff (npairs randoms randoms rbins period);
            D1R = np_diff (npairs sample1 randoms rbins period) in
        if np_all_eq sample1 sample2 then Inr (D1R, None, RR)
        else Inr (D1R, Some (np_diff (npairs sample2 randoms rbins period)), RR))
     else if N_threads \<le> 0 then Inl array_split_error
     else
       (let T = nat N_threads;
            RR = np_diff (chunked_npairs npairs T randoms randoms rbins period);
            D1R = np_diff (chunked_npairs npairs T sample1 randoms rbins period) in
        if np_all_eq sample1 sample2 then Inr (D1R, None, RR)
        else Inr (D1R,
                  Some (np_diff (chunked_npairs npairs T sample2 randoms rbins period)), RR)))"

text \<open>
  The third branch of \<^verbatim>\<open>random_counts\<close>: PBCs and no randoms, the counts are computed
  from the volumes of the shells.
\<close>

definition analytic_randoms ::
  "(real \<Rightarrow> real) \<Rightarrow> sample \<Rightarrow> sample \<Rightarrow> real list \<Rightarrow> ext list \<Rightarrow> nat
     \<Rightarrow> real list \<times> real list option \<times> real list" where
  "analytic_randoms gam sample1 sample2 rbins period k =
    (let dv = np_diff (map (\<lambda>R. nball_volume gam R k) rbins);
         global_volume = ext_prod period;
         N1 = real (len sample1);
         rho1 = div_ext N1 global_volume;
         D1R = map (\<lambda>v. N1 * (v * rho1)) dv in
     if np_all_eq sample1 sample2 then (D1R, None, D1R)
     else
       (let N2 = real (len sample2);
            rho2 = div_ext N2 global_volume;
            D2R = map (\<lambda>v. N2 * (v * rho2)) dv;
            NR = N1 * N2;
            rhor = div_ext NR global_volume;
            RR = map (\<lambda>v. v * rhor) dv in
        (D1R, Some D2R, RR)))"

definition none_operand :: error where
  "none_operand = TypeError ''unsupported operand type(s): NoneType''"

text \<open>
  \<^verbatim>\<open>random_counts(sample1, sample2, randoms, rbins, period, PBCs, k, N_threads)\<close>. Without
  PBCs the randoms are handed to the pair counter as they are; the caller has checked
  that they are present.
\<close>

definition random_counts ::
  "pair_counter \<Rightarrow> (real \<Rightarrow> real) \<Rightarrow> sample \<Rightarrow> sample \<Rightarrow> sample option \<Rightarrow> real list
     \<Rightarrow> ext list \<Rightarrow> bool \<Rightarrow> nat \<Rightarrow> int
     \<Rightarrow> error + (real list \<times> real list option \<times> real list)" where
  "random_counts npairs gam sample1 sample2 randoms rbins period PBCs k N_threads =
    (if PBCs = False then
       (case randoms of
          None \<Rightarrow> Inl none_operand
        | Some R \<Rightarrow> counted_randoms npairs sample1 sample2 R rbins period N_threads)
     else
       (case randoms of
          Some R \<Rightarrow> counted_randoms npairs sample1 sample2 R rbins period N_threads
        | None \<Rightarrow> Inr (analytic_randoms gam sample1 sample2 rbins period k)))"

text \<open>
  The period argument: absent, one number \<^verbatim>\<open>Lbox\<close>, or an array. Lines 128 to 138.
\<close>

datatype period_arg = PScalar ext | PVector "ext list"

definition process_period :: "period_arg option \<Rightarrow> nat \<Rightarrow> error + (bool \<times> ext list)" where
  "process_period period k =
    (case period of
       None \<Rightarrow> Inr (False, replicate k PInf)
     | Some (PScalar L) \<Rightarrow> Inr (True, replicate k L)
     | Some (PVector p) \<Rightarrow>
         (if length p \<noteq> k then Inl (ValueError ''period should have shape (k,)'')
          else Inr (True, p)))"

text \<open>Lines 140 to 151: down-sample \<^verbatim>\<open>sample2\<close>, then \<^verbatim>\<open>sample1\<close>.\<close>

definition down_sample_data ::
  "'g shuffler \<Rightarrow> 'g \<Rightarrow> sample \<Rightarrow> sample \<Rightarrow> nat \<Rightarrow> sample \<times> sample \<times> 'g" where
  "down_sample_data shuffle g sample1 sample2 max_sample_size =
    (case (if len sample2 > max_sample_size \<and> \<not> np_all_eq sample1 sample2
           then down_sample shuffle g sample2 max_sample_size
           else (sample2, g)) of
       (sample2', g1) \<Rightarrow>
         (case (if len sample1 > max_sample_size
                then down_sample shuffle g1 sample1 max_sample_size
                else (sample1, g1)) of
            (sample1', g2) \<Rightarrow> (sample1', sample2', g2)))"

text \<open>
  Lines 159 to 169, the checks of the parameters, in the order of the source. The
  reductions \<^verbatim>\<open>np.max\<close> and \<^verbatim>\<open>np.min\<close> raise \<^verbatim>\<open>ValueError\<close> on an empty array; the
  message of an unsupported estimator is built with \<^verbatim>\<open>str.value\<close>, which does not
  exist, so that check raises \<^verbatim>\<open>AttributeError\<close>.
\<close>

definition check_parameters ::
  "sample \<Rightarrow> sample \<Rightarrow> sample option \<Rightarrow> real list \<Rightarrow> ext list \<Rightarrow> bool \<Rightarrow> string
     \<Rightarrow> error + unit" where
  "check_parameters sample1 sample2 randoms rbins period PBCs estimator =
    (if rbins = [] then
       Inl (ValueError ''zero-size array to reduction operation maximum which has no identity'')
     else if period = [] then
       Inl (ValueError ''zero-size array to reduction operation minimum which has no identity'')
     else if gt_ext (Max (set rbins)) (ext_half (ext_min period)) then
       Inl (ValueError ''Cannot calculate for seperations larger than Lbox/2.'')
     else if ncols sample1 \<noteq> ncols sample2 then
       Inl (ValueError ''Sample 1 and sample 2 must have same dimension.'')
     else if randoms = None \<and> ext_min period = PInf then
       Inl (ValueError ''If no PBCs are specified, randoms must be provided.'')
     else if estimator \<notin> set list_estimators then
       Inl (AttributeError ''str object has no attribute value'')
     else if PBCs = True \<and> ext_max period = PInf then
       Inl (ValueError ''If a non-infinte PBC specified, all PBCs must be non-infinte.'')
     else Inr ())"

text \<open>
  Lines 316 to 323: \<^verbatim>\<open>(len(sample1)*1.0)/len(randoms)\<close> is a division of Python numbers
  and raises on an empty random catalogue.
\<close>

definition factors :: "sample \<Rightarrow> sample \<Rightarrow> sample option \<Rightarrow> error + (real \<times> real \<times> real)" where
  "factors sample1 sample2 randoms =
    (case randoms of
       None \<Rightarrow> Inr (1, 1, 1)
     | Some R \<Rightarrow>
         (if len R = 0 then Inl ZeroDivisionError
          else Inr (real (len sample1) / real (len R),
                    real (len sample2) / real (len R),
                    sqrt (real (len sample1)) * sqrt (real (len sample2)) / real (len R))))"

datatype result =
    Single "real option list"
  | Triple "real option list" "real option list" "real option list"

definition bind_err :: "error + 'a \<Rightarrow> ('a \<Rightarrow> error + 'b) \<Rightarrow> error + 'b" where
  "bind_err m f = (case m of Inl e \<Rightarrow> Inl e | Inr x \<Rightarrow> f x)"

text \<open>
  Lines 329 to 342: the estimates from the counts. \<^verbatim>\<open>D2R\<close> is an array whenever the
  samples differ; were it \<^verbatim>\<open>None\<close> the arithmetic on it would raise.
\<close>

definition estimate ::
  "sample \<Rightarrow> sample \<Rightarrow> sample option \<Rightarrow> bool \<Rightarrow> string \<Rightarrow> (real \<times> real \<times> real)
     \<Rightarrow> (real list \<times> real list \<times> real list) \<Rightarrow> (real list \<times> real list option \<times> real list)
     \<Rightarrow> error + result" where
  "estimate sample1 sample2 randoms PBCs estimator fs DDs DRs =
    (case fs of (factor1, factor2, factor3) \<Rightarrow>
     case DDs of (D1D1, D1D2, D2D2) \<Rightarrow>
     case DRs of (D1R, D2R, RR) \<Rightarrow>
       if np_all_eq sample2 sample1 then
         bind_err (TP_estimator D1D1 D1R RR factor1 estimator) (\<lambda>xi_11. Inr (Single xi_11))
       else if PBCs = True \<and> randoms = None then
         bind_err (TP_estimator D1D1 D1R D1R 1 estimator) (\<lambda>xi_11.
         bind_err (TP_estimator D1D2 D1R RR 1 estimator) (\<lambda>xi_12.
         case D2R of None \<Rightarrow> Inl none_operand
         | Some D2R' \<Rightarrow>
         bind_err (TP_estimator D2D2 D2R' D2R' 1 estimator) (\<lambda>xi_22.
         Inr (Triple xi_11 xi_12 xi_22))))
       else
         bind_err (TP_estimator D1D1 D1R RR factor1 estimator) (\<lambda>xi_11.
         bind_err (TP_estimator D1D2 D1R RR factor3 estimator) (\<lambda>xi_12.
         case D2R of None \<Rightarrow> Inl none_operand
         | Some D2R' \<Rightarrow>
         bind_err (TP_estimator D2D2 D2R' RR factor2 estimator) (\<lambda>xi_22.
         Inr (Triple xi_11 xi_12 xi_22)))))"

text \<open>
  Lines 122 to 169: the processing of the inputs, before any pair is counted. An absent
  \<^verbatim>\<open>sample2\<close> is \<^verbatim>\<open>sample1\<close>. A scalar \<^verbatim>\<open>rbins\<close> is the list of that one edge.
\<close>

record 'g inputs =
  in_sample1 :: sample
  in_sample2 :: sample
  in_period :: "ext list"
  in_PBCs :: bool
  in_k :: nat
  in_rng :: 'g

definition process_inputs ::
  "'g shuffler \<Rightarrow> 'g \<Rightarrow> sample \<Rightarrow> real list \<Rightarrow> sample option \<Rightarrow> sample option
     \<Rightarrow> period_arg option \<Rightarrow> nat \<Rightarrow> string \<Rightarrow> error + 'g inputs" where
  "process_inputs shuffle g sample1 rbins sample2 randoms period max_sample_size estimator =
    (let sample2a = (case sample2 of Some s \<Rightarrow> s | None \<Rightarrow> sample1) in
     bind_err (process_period period (ncols sample1)) (\<lambda>(PBCs, period').
     case down_sample_data shuffle g sample1 sample2a max_sample_size of
       (sample1', sample2', g') \<Rightarrow>
     bind_err (check_parameters sample1' sample2' randoms rbins period' PBCs estimator) (\<lambda>_.
     Inr \<lparr> in_sample1 = sample1', in_sample2 = sample2', in_period = period',
           in_PBCs = PBCs, in_k = ncols sample1', in_rng = g' \<rparr>)))"

definition two_point_correlation_function ::
  "pair_counter \<Rightarrow> (real \<Rightarrow> real) \<Rightarrow> 'g shuffler \<Rightarrow> 'g \<Rightarrow> sample \<Rightarrow> real list
     \<Rightarrow> sample option \<Rightarrow> sample option \<Rightarrow> period_arg option \<Rightarrow> nat \<Rightarrow> string \<Rightarrow> int
     \<Rightarrow> error + result" where
  "two_point_correlation_function npairs gam shuffle g sample1 rbins sample2 randoms period
      max_sample_size estimator N_threads =
    bind_err (process_inputs shuffle g sample1 rbins sample2 randoms period max_sample_size
                estimator) (\<lambda>inp.
    bind_err (factors (in_sample1 inp) (in_sample2 inp) randoms) (\<lambda>fs.
    bind_err (pair_counts npairs (in_sample1 inp) (in_sample2 inp) rbins (in_period inp)
                N_threads) (\<lambda>DDs.
    bind_err (random_counts npairs gam (in_sample1 inp) (in_sample2 inp) randoms rbins
                (in_period inp) (in_PBCs inp) (in_k inp) N_threads) (\<lambda>DRs.
    estimate (in_sample1 inp) (in_sample2 inp) randoms (in_PBCs inp) estimator fs DDs DRs))))"

section \<open>two_point_correlation_function_jackknife\<close>

text \<open>
  Lines 433 to 451: the down-sampling of the jackknife variant. The first two steps are
  those of \<^verbatim>\<open>two_point_correlation_function\<close>; the third tests \<^verbatim>\<open>len(randoms)\<close> and
  assigns \<^verbatim>\<open>sample1 = randoms[inds]\<close>. The result is \<^verbatim>\<open>sample1\<close>, \<^verbatim>\<open>sample2\<close>,
  \<^verbatim>\<open>randoms\<close> and the state of the random generator after the block.
\<close>

definition jackknife_down_sample ::
  "'g shuffler \<Rightarrow> 'g \<Rightarrow> sample \<Rightarrow> sample \<Rightarrow> sample \<Rightarrow> nat
     \<Rightarrow> sample \<times> sample \<times> sample \<times> 'g" where
  "jackknife_down_sample shuffle g sample1 sample2 randoms max_sample_size =
    (case down_sample_data shuffle g sample1 sample2 max_sample_size of
       (sample1', sample2', g2) \<Rightarrow>
         if len randoms > max_sample_size then
           (case down_sample shuffle g2 randoms max_sample_size of
              (picked, g3) \<Rightarrow> (picked, sample2', randoms, g3))
         else (sample1', sample2', randoms, g2))"

text \<open>
  Arithmetic on estimates that may be non-finite: a non-finite operand gives a
  non-finite result; \<^verbatim>\<open>x**0.5\<close> of a negative number is \<^verbatim>\<open>nan\<close>.
\<close>

definition nf_add :: "real option \<Rightarrow> real option \<Rightarrow> real option" where
  "nf_add x y = (case x of None \<Rightarrow> None
                 | Some a \<Rightarrow> (case y of None \<Rightarrow> None | Some b \<Rightarrow> Some (a + b)))"

definition nf_mul :: "real option \<Rightarrow> real option \<Rightarrow> real option" where
  "nf_mul x y = (case x of None \<Rightarrow> None
                 | Some a \<Rightarrow> (case y of None \<Rightarrow> None | Some b \<Rightarrow> Some (a * b)))"

definition nf_sum :: "real option list \<Rightarrow> real option" where
  "nf_sum xs = foldr nf_add xs (Some 0)"

definition nf_sqrt :: "real option \<Rightarrow> real option" where
  "nf_sqrt x = (case x of None \<Rightarrow> None | Some a \<Rightarrow> (if a < 0 then None else Some (sqrt a)))"

text \<open>
  \<^verbatim>\<open>jackknife_errors(sub,full,N_sub_vol)\<close>: \<^verbatim>\<open>sub\<close> has one row per subvolume,
  \<^verbatim>\<open>full\<close> one entry per bin, \<^verbatim>\<open>squared.sum(axis=0)\<close> adds the rows. The module
  imports \<^verbatim>\<open>division\<close> from \<^verbatim>\<open>__future__\<close>: \<^verbatim>\<open>(N_sub_vol-1)/N_sub_vol\<close> is a true
  division of numpy integers.
\<close>

definition jackknife_errors ::
  "real option list list \<Rightarrow> real option list \<Rightarrow> int \<Rightarrow> real option list" where
  "jackknife_errors sub full N_sub_vol =
    (let after_subtraction = map (\<lambda>row. map2 nf_sub row full) sub;
         squared = map (map (map_option (\<lambda>x. x ^ 2))) after_subtraction;
         col_sums = map (\<lambda>j. nf_sum (map (\<lambda>row. row ! j) squared)) [0..<length full];
         error2 = map (nf_mul (np_div (real_of_int (N_sub_vol - 1)) (real_of_int N_sub_vol)))
                      col_sums
     in map nf_sqrt error2)"

section \<open>angular_two_point_correlation_function\<close>

text \<open>
  A count of the angular function is an array, \<^verbatim>\<open>None\<close> where the count was skipped, or
  \<^verbatim>\<open>False\<close> (two branches of \<^verbatim>\<open>pair_counts\<close> assign \<^verbatim>\<open>D2D2=False\<close>).
\<close>

datatype count_array = Counts "real list" | CNone | CFalse

text \<open>
  The pair counter as the angular function calls it, with the optional communicator:
  \<^verbatim>\<open>npairs(s1, s2, theta_bins)\<close> or \<^verbatim>\<open>npairs(s1, s2, theta_bins, comm=comm)\<close>.
\<close>

type_synonym 'c ang_counter = "'c option \<Rightarrow> sample \<Rightarrow> sample \<Rightarrow> real list \<Rightarrow> real list"

definition ang_chunked ::
  "'c ang_counter \<Rightarrow> nat \<Rightarrow> sample \<Rightarrow> sample \<Rightarrow> real list \<Rightarrow> real list" where
  "ang_chunked npairs T s other theta_bins =
     np_sum_axis0 (map (\<lambda>chunk. npairs None chunk other theta_bins) (array_split s T))"

text \<open>
  \<^verbatim>\<open>pair_counts(sample1, sample2, theta_bins, N_threads, do_auto, do_cross, do_DD, comm)\<close>
  of the angular function. Its branch for a communicator and its branch for one thread
  differ only in the communicator they hand to the pair counter, which is \<^verbatim>\<open>None\<close> in
  the second.
\<close>

definition ang_pair_counts ::
  "'c ang_counter \<Rightarrow> sample \<Rightarrow> sample \<Rightarrow> real list \<Rightarrow> int \<Rightarrow> bool \<Rightarrow> bool \<Rightarrow> 'c option
     \<Rightarrow> error + (count_array \<times> count_array \<times> count_array)" where
  "ang_pair_counts npairs sample1 sample2 theta_bins N_threads do_auto do_cross comm =
    (if comm \<noteq> None \<or> N_threads = 1 then
       (let D1D1 = (if do_auto then Counts (np_diff (npairs comm sample1 sample1 theta_bins))
                    else CNone) in
        if np_all_eq sample1 sample2 then Inr (D1D1, D1D1, D1D1)
        else Inr (D1D1,
                  (if do_cross then Counts (np_diff (npairs comm sample1 sample2 theta_bins))
                   else CNone),
                  (if do_auto then Counts (np_diff (npairs comm sample2 sample2 theta_bins))
                   else CFalse)))
     else
       (if do_auto \<and> N_threads \<le> 0 then Inl array_split_error
        else
          (let T = nat N_threads;
               D1D1 = (if do_auto
                       then Counts (np_diff (ang_chunked npairs T sample1 sample1 theta_bins))
                       else CNone) in
           if np_all_eq sample1 sample2 then Inr (D1D1, D1D1, D1D1)
           else if do_cross \<and> N_threads \<le> 0 then Inl array_split_error
           else Inr (D1D1,
                  (if do_cross
                   then Counts (np_diff (ang_chunked npairs T sample1 sample2 theta_bins))
                   else CNone),
                  (if do_auto
                   then Counts (np_diff (ang_chunked npairs T sample2 sample2 theta_bins))
                   else CNone)))))"

text \<open>\<^verbatim>\<open>cap_area(C)\<close>: the area of the spherical cap of chord length \<open>C\<close>.\<close>

definition cap_area :: "real \<Rightarrow> real" where
  "cap_area C = (let theta = 2 * arcsin (C / 2) in 2 * pi * (1 - cos theta))"

text \<open>
  \<^verbatim>\<open>random_counts(sample1, sample2, randoms, theta_bins, PBCs, N_threads, do_RR, do_DR,
  comm)\<close> of the angular function. With a communicator \<^verbatim>\<open>D2R\<close> is always \<^verbatim>\<open>None\<close>.
\<close>

definition ang_random_counts ::
  "'c ang_counter \<Rightarrow> sample \<Rightarrow> sample \<Rightarrow> sample option \<Rightarrow> real list \<Rightarrow> bool \<Rightarrow> int
     \<Rightarrow> bool \<Rightarrow> bool \<Rightarrow> 'c option \<Rightarrow> error + (count_array \<times> count_array \<times> count_array)" where
  "ang_random_counts npairs sample1 sample2 randoms theta_bins PBCs N_threads do_RR do_DR comm =
    (if PBCs = False then
       (case randoms of
          None \<Rightarrow> Inl none_operand
        | Some R \<Rightarrow>
          if comm \<noteq> None then
            Inr ((if do_DR then Counts (np_diff (npairs comm sample1 R theta_bins)) else CNone),
                 CNone,
                 (if do_RR then Counts (np_diff (npairs comm R R theta_bins)) else CNone))
          else if N_threads = 1 then
            Inr ((if do_DR then Counts (np_diff (npairs None sample1 R theta_bins)) else CNone),
                 (if np_all_eq sample1 sample2 then CNone
                  else if do_DR then Counts (np_diff (npairs None sample2 R theta_bins))
                  else CNone),
                 (if do_RR then Counts (np_diff (npairs None R R theta_bins)) else CNone))
          else if (do_RR \<or> do_DR) \<and> N_threads \<le> 0 then Inl array_split_error
          else
            (let T = nat N_threads in
             Inr ((if do_DR then Counts (np_diff (ang_chunked npairs T sample1 R theta_bins))
                   else CNone),
                  (if np_all_eq sample1 sample2 then CNone
                   else if do_DR
                   then Counts (np_diff (ang_chunked npairs T sample2 R theta_bins))
                   else CNone),
                  (if do_RR then Counts (np_diff (ang_chunked npairs T R R theta_bins))
                   else CNone))))
     else
       (let dv = np_diff (map cap_area theta_bins);
            global_area = 4 * pi;
            N1 = real (len sample1);
            rho1 = N1 / global_area;
            D1R = map (\<lambda>v. N1 * (v * rho1)) dv in
        if np_all_eq sample1 sample2 then Inr (Counts D1R, CNone, Counts D1R)
        else
          (let N2 = real (len sample2);
               rho2 = N2 / global_area;
               D2R = map (\<lambda>v. N2 * (v * rho2)) dv;
               NR = N1 * N2;
               rhor = NR / global_area;
               RR = map (\<lambda>v. v * rhor) dv in
           Inr (Counts D1R, Counts D2R, Counts RR))))"

text \<open>
  An operand of the estimator's arithmetic: \<^verbatim>\<open>None\<close> raises \<^verbatim>\<open>TypeError\<close>, \<^verbatim>\<open>False\<close> is
  the number zero in every bin.
\<close>

fun operand :: "nat \<Rightarrow> count_array \<Rightarrow> error + real list" where
  "operand n (Counts xs) = Inr xs"
| "operand n CNone = Inl none_operand"
| "operand n CFalse = Inr (replicate n 0)"

fun nbins :: "count_array list \<Rightarrow> nat" where
  "nbins [] = 0"
| "nbins (Counts xs # cs) = length xs"
| "nbins (c # cs) = nbins cs"

text \<open>
  \<^verbatim>\<open>TP_estimator(DD,DR,RR,ND1,ND2,NR1,NR2,estimator)\<close> of the angular function, the
  operations in the order Python evaluates them.
\<close>

definition ang_TP_estimator ::
  "count_array \<Rightarrow> count_array \<Rightarrow> count_array \<Rightarrow> real \<Rightarrow> real \<Rightarrow> real \<Rightarrow> real \<Rightarrow> string
     \<Rightarrow> error + real option list" where
  "ang_TP_estimator DD DR RR ND1 ND2 NR1 NR2 estimator =
    (let n = nbins [DD, DR, RR] in
     if estimator = ''Natural'' then
       (if NR1 * NR2 = 0 then Inl ZeroDivisionError
        else let factor = ND1 * ND2 / (NR1 * NR2) in
        if factor = 0 then Inl ZeroDivisionError
        else bind_err (operand n DD) (\<lambda>dd. bind_err (operand n RR) (\<lambda>rr.
             Inr (map2 (\<lambda>d r. nf_add_const (np_div ((1 / factor) * d) r) (- 1)) dd rr))))
     else if estimator = ''Davis-Peebles'' then
       (if ND1 * NR2 = 0 then Inl ZeroDivisionError
        else let factor = ND1 * ND2 / (ND1 * NR2) in
        if factor = 0 then Inl ZeroDivisionError
        else bind_err (operand n DD) (\<lambda>dd. bind_err (operand n DR) (\<lambda>dr.
             Inr (map2 (\<lambda>d r. nf_add_const (np_div ((1 / factor) * d) r) (- 1)) dd dr))))
     else if estimator = ''Hewett'' then
       (if NR1 * NR2 = 0 then Inl ZeroDivisionError
        else let factor1 = ND1 * ND2 / (NR1 * NR2); factor2 = ND1 * NR2 / (NR1 * NR2) in
        if factor1 = 0 then Inl ZeroDivisionError
        else bind_err (operand n DD) (\<lambda>dd. bind_err (operand n RR) (\<lambda>rr.
             if factor2 = 0 then Inl ZeroDivisionError
             else bind_err (operand n DR) (\<lambda>dr.
             Inr (map3 (\<lambda>d e r. nf_sub (np_div ((1 / factor1) * d) r)
                                        (np_div ((1 / factor2) * e) r)) dd dr rr)))))
     else if estimator = ''Hamilton'' then
       bind_err (operand n DD) (\<lambda>dd. bind_err (operand n RR) (\<lambda>rr.
       bind_err (operand n DR) (\<lambda>dr.
       Inr (map3 (\<lambda>d e r. nf_add_const (np_div (d * r) (e * e)) (- 1)) dd dr rr))))
     else if estimator = ''Landy-Szalay'' then
       (if NR1 * NR2 = 0 then Inl ZeroDivisionError
        else let factor1 = ND1 * ND2 / (NR1 * NR2); factor2 = ND1 * NR2 / (NR1 * NR2) in
        if factor1 = 0 then Inl ZeroDivisionError
        else bind_err (operand n DD) (\<lambda>dd. bind_err (operand n RR) (\<lambda>rr.
             if factor2 = 0 then Inl ZeroDivisionError
             else bind_err (operand n DR) (\<lambda>dr.
             Inr (map3 (\<lambda>d e r. nf_add_const
                                  (nf_sub (np_div ((1 / factor1) * d) r)
                                          (np_div ((1 / factor2) * 2 * e) r)) 1)
                       dd dr rr)))))
     else Inl (ValueError ''unsupported estimator!''))"

text \<open>\<^verbatim>\<open>TP_estimator_requirements(estimator)\<close>: \<^verbatim>\<open>do_DD\<close>, \<^verbatim>\<open>do_DR\<close>, \<^verbatim>\<open>do_RR\<close>.\<close>

definition TP_estimator_requirements :: "string \<Rightarrow> error + (bool \<times> bool \<times> bool)" where
  "TP_estimator_requirements estimator =
    (if estimator = ''Natural'' then Inr (True, False, True)
     else if estimator = ''Davis-Peebles'' then Inr (True, True, False)
     else if estimator = ''Hewett'' then Inr (True, True, True)
     else if estimator = ''Hamilton'' then Inr (True, True, True)
     else if estimator = ''Landy-Szalay'' then Inr (True, True, True)
     else Inl (ValueError ''unsupported estimator!''))"

text \<open>
  The external \<^verbatim>\<open>spherical_to_cartesian(ra, dec)\<close> is a parameter, applied to the columns
  \<^verbatim>\<open>s[:,0]\<close> and \<^verbatim>\<open>s[:,1]\<close>; an array with fewer than two columns has no column 1.
\<close>

definition to_xyz :: "(real \<Rightarrow> real \<Rightarrow> real \<times> real \<times> real) \<Rightarrow> sample \<Rightarrow> error + sample" where
  "to_xyz s2c s =
    (if ncols s < 2 then Inl (IndexError ''index 1 is out of bounds'')
     else Inr (Sample 3 (map (\<lambda>r. case s2c (r ! 0) (r ! 1) of (x, y, z) \<Rightarrow> [x, y, z])
                             (rows s))))"

datatype ang_result =
    ANone
  | AOne "real option list"
  | ATwo "real option list" "real option list"
  | AThree "real option list" "real option list" "real option list"

text \<open>
  The angular function. \<^verbatim>\<open>chord_to_cartesian(theta_bins, radians=False)\<close> is the
  parameter \<open>chord\<close>, applied to every edge. The last branch chain (lines 1034 to 1049)
  has no \<^verbatim>\<open>else\<close>: the function then ends without a \<^verbatim>\<open>return\<close>.
\<close>

definition angular_two_point_correlation_function ::
  "'c ang_counter \<Rightarrow> (real \<Rightarrow> real \<Rightarrow> real \<times> real \<times> real) \<Rightarrow> (real \<Rightarrow> real)
     \<Rightarrow> 'g shuffler \<Rightarrow> 'g \<Rightarrow> sample \<Rightarrow> real list \<Rightarrow> sample option \<Rightarrow> sample option
     \<Rightarrow> nat \<Rightarrow> string \<Rightarrow> bool \<Rightarrow> bool \<Rightarrow> int \<Rightarrow> 'c option \<Rightarrow> error + ang_result" where
  "angular_two_point_correlation_function npairs s2c chord shuffle g sample1 theta_bins
      sample2 randoms max_sample_size estimator do_auto do_cross N_threads comm =
    (let sample2a = (case sample2 of Some s \<Rightarrow> s | None \<Rightarrow> sample1);
         PBCs = (randoms = None) in
     case down_sample_data shuffle g sample1 sample2a max_sample_size of
       (sample1', sample2', g') \<Rightarrow>
     if ncols sample1' \<noteq> 2 then
       Inl (ValueError ''angular correlation function requires 2-dimensional data'')
     else if ncols sample1' \<noteq> ncols sample2' then
       Inl (ValueError ''Sample 1 and sample 2 must have same dimension.'')
     else if estimator \<notin> set list_estimators then
       Inl (AttributeError ''str object has no attribute value'')
     else
       (let N1 = (case randoms of Some R \<Rightarrow> real (len sample1') | None \<Rightarrow> 1);
            N2 = (case randoms of Some R \<Rightarrow> real (len sample2') | None \<Rightarrow> 1);
            NR = (case randoms of Some R \<Rightarrow> real (len R) | None \<Rightarrow> 1) in
        bind_err (TP_estimator_requirements estimator) (\<lambda>(do_DD, do_DR, do_RR).
        bind_err (to_xyz s2c sample1') (\<lambda>xyz_1.
        bind_err (to_xyz s2c sample2') (\<lambda>xyz_2.
        bind_err (case randoms of None \<Rightarrow> Inr None
                  | Some R \<Rightarrow> bind_err (to_xyz s2c R) (\<lambda>x. Inr (Some x))) (\<lambda>xyz_randoms.
        let c_bins = map chord theta_bins in
        bind_err (ang_pair_counts npairs xyz_1 xyz_2 c_bins N_threads do_auto do_cross comm)
          (\<lambda>(D1D1, D1D2, D2D2).
        bind_err (ang_random_counts npairs xyz_1 xyz_2 xyz_randoms c_bins PBCs N_threads
                    do_RR do_DR comm)
          (\<lambda>(D1R, D2R, RR).
        if np_all_eq sample2' sample1' then
          bind_err (ang_TP_estimator D1D1 D1R RR N1 N1 NR NR estimator) (\<lambda>xi_11.
          Inr (AOne xi_11))
        else if do_auto \<and> do_cross then
          bind_err (ang_TP_estimator D1D1 D1R RR N1 N1 NR NR estimator) (\<lambda>xi_11.
          bind_err (ang_TP_estimator D1D2 D1R RR N1 N2 NR NR estimator) (\<lambda>xi_12.
          bind_err (ang_TP_estimator D2D2 D2R RR N2 N2 NR NR estimator) (\<lambda>xi_22.
          Inr (AThree xi_11 xi_12 xi_22))))
        else if do_cross then
          bind_err (ang_TP_estimator D1D2 D1R RR N1 N2 NR NR estimator) (\<lambda>xi_12.
          Inr (AOne xi_12))
        else if do_auto then
          bind_err (ang_TP_estimator D1D1 D1R RR N1 N1 NR NR estimator) (\<lambda>xi_11.
          bind_err (ang_TP_estimator D2D2 D2R RR N2 N2 NR NR estimator) (\<lambda>xi_22.
          Inr (ATwo xi_11 xi_22)))
        else Inr ANone))))))))"

section \<open>A reference pair counter and a reference shuffle\<close>

text \<open>
  Modelled from the spec: the pair counter \<^verbatim>\<open>npairs\<close> is imported from one of the
  modules \<^verbatim>\<open>npairs_mpi\<close>, \<^verbatim>\<open>kdpairs\<close>, \<^verbatim>\<open>cpairs\<close>, \<^verbatim>\<open>pairs\<close>, none of which is
  among the sources. The specification describes it: given two point sets, bin edges and
  an optional periodic box size, it returns the cumulative count of the pairs with
  separation at most each bin edge, self pairs and both orders of a pair included. The
  brute-force counter below does that; the separation along a periodic axis of length
  \<open>L\<close> is the shorter way round. It serves to evaluate the functions above on
  concrete inputs; the theorems hold for every pair counter.
\<close>

definition axis_sep :: "ext \<Rightarrow> real \<Rightarrow> real \<Rightarrow> real" where
  "axis_sep L x y =
    (case L of PInf \<Rightarrow> \<bar>x - y\<bar> | Fin l \<Rightarrow> min \<bar>x - y\<bar> (l - \<bar>x - y\<bar>))"

definition sq_dist :: "ext list \<Rightarrow> real list \<Rightarrow> real list \<Rightarrow> real" where
  "sq_dist period p q =
     sum_list (map (\<lambda>(L, x, y). (axis_sep L x y) ^ 2) (zip period (zip p q)))"

definition in_reach :: "ext list \<Rightarrow> real \<Rightarrow> real list \<times> real list \<Rightarrow> bool" where
  "in_reach period r pq = (case pq of (p, q) \<Rightarrow> 0 \<le> r \<and> sq_dist period p q \<le> r ^ 2)"

definition npairs_brute :: pair_counter where
  "npairs_brute s1 s2 rbins period =
     map (\<lambda>r. real (length (filter (in_reach period r) (List.product (rows s1) (rows s2)))))
         rbins"

text \<open>
  Modelled from the spec: the helpers \<^verbatim>\<open>spherical_to_cartesian\<close> and
  \<^verbatim>\<open>chord_to_cartesian\<close> of \<^verbatim>\<open>halotools.utils.spherical_geometry\<close> are not among the
  sources. The specification describes them: the first converts (ra, dec) spherical
  coordinates to unit three-dimensional Cartesian vectors, the second converts an
  angular bin edge (in degrees) to the chord length \<open>2 sin(\<theta>/2)\<close>. The angular pair
  counter is the brute-force counter without periodicity. They serve to evaluate the
  angular function on concrete inputs; the theorems hold for every choice of them.
\<close>

definition radians :: "real \<Rightarrow> real" where
  "radians d = d * pi / 180"

definition spherical_to_cartesian :: "real \<Rightarrow> real \<Rightarrow> real \<times> real \<times> real" where
  "spherical_to_cartesian ra dec =
     (cos (radians ra) * cos (radians dec), sin (radians ra) * cos (radians dec),
      sin (radians dec))"

definition chord_to_cartesian :: "real \<Rightarrow> real" where
  "chord_to_cartesian theta = 2 * sin (radians theta / 2)"

definition ang_npairs_brute :: "unit ang_counter" where
  "ang_npairs_brute comm s1 s2 bins = npairs_brute s1 s2 bins [PInf, PInf, PInf]"

text \<open>The shuffle that leaves the indices in their order, one outcome of the random one.\<close>

definition keep_order :: "'g shuffler" where
  "keep_order g inds = (inds, g)"

text \<open>
  The value of \<^verbatim>\<open>math.gamma\<close> at 2, which is 1. On a two-dimensional sample
  (\<open>k = 2\<close>) the analytic counts call \<^verbatim>\<open>math.gamma\<close> at \<open>k/2 + 1 = 2\<close> only, so this
  function stands for it in the evaluations on two-dimensional inputs.
\<close>

definition gamma_at_two :: "real \<Rightarrow> real" where
  "gamma_at_two x = 1"

text \<open>
  The volume of the \<open>k\<close>-ball of radius \<open>r\<close> as the specification writes it,
  \<open>\<pi>\<^bsup>k/2\<^esup> / \<Gamma>(k/2 + 1) \<sqdot> r\<^bsup>k\<^esup>\<close>, with the Gamma function a parameter.
\<close>

definition spec_ball_volume :: "(real \<Rightarrow> real) \<Rightarrow> nat \<Rightarrow> real \<Rightarrow> real" where
  "spec_ball_volume Gamma_fn k r = pi powr (real k / 2) / Gamma_fn (real k / 2 + 1) * r ^ k"

section \<open>Properties of the estimator\<close>

lemma map2_nth_conv:
  "length ys = length xs \<Longrightarrow>
     map2 f xs ys = map (\<lambda>i. f (xs ! i) (ys ! i)) [0..<length xs]"
  by (rule nth_equalityI) simp_all

lemma map3_nth_conv:
  "length ys = length xs \<Longrightarrow> length zs = length xs \<Longrightarrow>
     map3 f xs ys zs = map (\<lambda>i. f (xs ! i) (ys ! i) (zs ! i)) [0..<length xs]"
  unfolding map3_def by (rule nth_equalityI) simp_all

lemma natural_bin:
  "f \<noteq> 0 \<Longrightarrow> nf_add_const (np_div ((1 / f ^ 2) * dd) rr) (- 1) = spec_xi ''Natural'' f dd dr rr"
  by (simp add: nf_add_const_def np_div_def spec_xi_def divide_simps)

lemma davis_peebles_bin:
  "f \<noteq> 0 \<Longrightarrow>
     nf_add_const (np_div ((1 / f) * dd) dr) (- 1) = spec_xi ''Davis-Peebles'' f dd dr rr"
  by (simp add: nf_add_const_def np_div_def spec_xi_def divide_simps)

lemma hewett_bin:
  "f \<noteq> 0 \<Longrightarrow>
     nf_sub (np_div ((1 / f ^ 2) * dd) rr) (np_div ((1 / f) * dr) rr)
       = spec_xi ''Hewett'' f dd dr rr"
  by (simp add: nf_sub_def np_div_def spec_xi_def divide_simps)

lemma hamilton_bin:
  "nf_add_const (np_div (dd * rr) (dr * dr)) (- 1) = spec_xi ''Hamilton'' f dd dr rr"
  by (simp add: nf_add_const_def np_div_def spec_xi_def power2_eq_square)

lemma landy_szalay_bin:
  "f \<noteq> 0 \<Longrightarrow>
     nf_add_const
       (nf_sub (np_div ((1 / f ^ 2) * dd) rr) (np_div ((1 / f) * 2 * dr) rr)) 1
       = spec_xi ''Landy-Szalay'' f dd dr rr"
  by (simp add: nf_add_const_def nf_sub_def np_div_def spec_xi_def divide_simps)

lemma est_cases:
  "estimator \<in> set list_estimators \<Longrightarrow>
     estimator = ''Natural'' \<or> estimator = ''Davis-Peebles'' \<or> estimator = ''Hewett''
      \<or> estimator = ''Hamilton'' \<or> estimator = ''Landy-Szalay''"
  unfolding list_estimators_def by simp

lemma TP_Natural:
  "f \<noteq> 0 \<Longrightarrow> length RR = length DD \<Longrightarrow>
   TP_estimator DD DR RR f ''Natural''
     = Inr (map (\<lambda>i. spec_xi ''Natural'' f (DD ! i) (DR ! i) (RR ! i)) [0..<length DD])"
  unfolding TP_estimator_def
  by (simp add: map2_nth_conv natural_bin [symmetric])

lemma TP_Davis_Peebles:
  "f \<noteq> 0 \<Longrightarrow> length DR = length DD \<Longrightarrow>
   TP_estimator DD DR RR f ''Davis-Peebles''
     = Inr (map (\<lambda>i. spec_xi ''Davis-Peebles'' f (DD ! i) (DR ! i) (RR ! i)) [0..<length DD])"
  unfolding TP_estimator_def
  by (simp add: map2_nth_conv davis_peebles_bin [symmetric])

lemma TP_Hewett:
  "f \<noteq> 0 \<Longrightarrow> length DR = length DD \<Longrightarrow> length RR = length DD \<Longrightarrow>
   TP_estimator DD DR RR f ''Hewett''
     = Inr (map (\<lambda>i. spec_xi ''Hewett'' f (DD ! i) (DR ! i) (RR ! i)) [0..<length DD])"
  unfolding TP_estimator_def
  by (simp add: map3_nth_conv hewett_bin [symmetric])

lemma TP_Hamilton:
  "length DR = length DD \<Longrightarrow> length RR = length DD \<Longrightarrow>
   TP_estimator DD DR RR f ''Hamilton''
     = Inr (map (\<lambda>i. spec_xi ''Hamilton'' f (DD ! i) (DR ! i) (RR ! i)) [0..<length DD])"
  unfolding TP_estimator_def
  by (simp add: map3_nth_conv hamilton_bin [symmetric])

lemma TP_Landy_Szalay:
  "f \<noteq> 0 \<Longrightarrow> length DR = length DD \<Longrightarrow> length RR = length DD \<Longrightarrow>
   TP_estimator DD DR RR f ''Landy-Szalay''
     = Inr (map (\<lambda>i. spec_xi ''Landy-Szalay'' f (DD ! i) (DR ! i) (RR ! i)) [0..<length DD])"
  unfolding TP_estimator_def
  by (simp add: map3_nth_conv landy_szalay_bin [symmetric])

text \<open>
  C1. For count arrays \<open>DD\<close>, \<open>DR\<close>, \<open>RR\<close> of one length, a factor \<open>f > 0\<close> and each of the
  five supported estimator names, \<open>TP_estimator\<close> returns, bin by bin, the value of the
  specification's formula: Natural \<open>DD/(f\<^sup>2 RR) - 1\<close>, Davis-Peebles \<open>DD/(f DR) - 1\<close>,
  Hewett \<open>DD/(f\<^sup>2 RR) - DR/(f RR)\<close>, Hamilton \<open>DD RR/DR\<^sup>2 - 1\<close>, Landy-Szalay
  \<open>DD/(f\<^sup>2 RR) - 2 DR/(f RR) + 1\<close>; a bin whose denominator is zero is non-finite on
  both sides.
\<close>

theorem TP_estimator_formulas:
  assumes "estimator \<in> set list_estimators"
    and "0 < f"
    and "length DR = length DD"
    and "length RR = length DD"
  shows "TP_estimator DD DR RR f estimator
           = Inr (map (\<lambda>i. spec_xi estimator f (DD ! i) (DR ! i) (RR ! i)) [0..<length DD])"
proof -
  have f0: "f \<noteq> 0" using assms(2) by simp
  from est_cases [OF assms(1)] show ?thesis
  proof (elim disjE)
    assume "estimator = ''Natural''"
    then show ?thesis using TP_Natural [OF f0 assms(4)] by simp
  next
    assume "estimator = ''Davis-Peebles''"
    then show ?thesis using TP_Davis_Peebles [OF f0 assms(3)] by simp
  next
    assume "estimator = ''Hewett''"
    then show ?thesis using TP_Hewett [OF f0 assms(3) assms(4)] by simp
  next
    assume "estimator = ''Hamilton''"
    then show ?thesis using TP_Hamilton [OF assms(3) assms(4)] by simp
  next
    assume "estimator = ''Landy-Szalay''"
    then show ?thesis using TP_Landy_Szalay [OF f0 assms(3) assms(4)] by simp
  qed
qed

theorem TP_estimator_formulas_witness:
  "TP_estimator [4, 1] [2, 0] [1, 0] 2 ''Landy-Szalay'' = Inr [Some 0, None]
   \<and> TP_estimator [4, 1] [2, 0] [1, 0] 2 ''Hamilton'' = Inr [Some 0, None]"
proof -
  have a: "TP_estimator [4, 1] [2, 0] [1, 0] 2 ''Landy-Szalay''
      = Inr (map (\<lambda>i. spec_xi ''Landy-Szalay'' 2 ([4, 1] ! i) ([2, 0] ! i) ([1, 0] ! i))
               [0..<length [4, 1 :: real]])"
    by (rule TP_estimator_formulas) (simp_all add: list_estimators_def)
  have b: "TP_estimator [4, 1] [2, 0] [1, 0] 2 ''Hamilton''
      = Inr (map (\<lambda>i. spec_xi ''Hamilton'' 2 ([4, 1] ! i) ([2, 0] ! i) ([1, 0] ! i))
               [0..<length [4, 1 :: real]])"
    by (rule TP_estimator_formulas) (simp_all add: list_estimators_def)
  have c: "[0..<length [4, 1 :: real]] = [0, 1]" by (simp add: upt_rec)
  show ?thesis unfolding a b c by (simp add: spec_xi_def)
qed

section \<open>Chunked pair counting\<close>

lemma concat_chop: "length xs \<le> sum_list ns \<Longrightarrow> concat (chop ns xs) = xs"
proof (induction ns arbitrary: xs)
  case Nil
  then show ?case by simp
next
  case (Cons n ns)
  have "length (drop n xs) \<le> sum_list ns" using Cons.prems by simp
  then have "concat (chop ns (drop n xs)) = drop n xs" by (rule Cons.IH)
  then show ?case by simp
qed

lemma sum_list_split_sizes: "0 < T \<Longrightarrow> sum_list (split_sizes n T) = n"
proof -
  assume T: "0 < T"
  have le: "n mod T \<le> T" using T by (simp add: less_imp_le)
  have "sum_list (split_sizes n T) = (n mod T) * (n div T + 1) + (T - n mod T) * (n div T)"
    by (simp add: split_sizes_def sum_list_replicate)
  also have "\<dots> = (n mod T + (T - n mod T)) * (n div T) + n mod T"
    by (simp add: algebra_simps)
  also have "\<dots> = T * (n div T) + n mod T"
  proof -
    have "n mod T + (T - n mod T) = T" by (rule le_add_diff_inverse [OF le])
    then show ?thesis by simp
  qed
  also have "\<dots> = n" by simp
  finally show ?thesis .
qed

lemma length_split_sizes: "0 < T \<Longrightarrow> length (split_sizes n T) = T"
  by (simp add: split_sizes_def less_imp_le)

lemma length_chop: "length (chop ns xs) = length ns"
  by (induction ns arbitrary: xs) simp_all

lemma np_sum_axis0_chunks:
  assumes add: "\<And>a b. f (a @ b) = map2 (+) (f a) (f b)"
    and ne: "cs \<noteq> []"
  shows "np_sum_axis0 (map f cs) = f (concat cs)"
  using ne
proof (induction cs)
  case Nil
  then show ?case by simp
next
  case (Cons c cs)
  show ?case
  proof (cases cs)
    case Nil
    then show ?thesis by simp
  next
    case (Cons d ds)
    then have "np_sum_axis0 (map f cs) = f (concat cs)" using Cons.IH by simp
    then show ?thesis using Cons add [of c "concat cs"] by simp
  qed
qed

lemma chunked_npairs_single_shot:
  assumes add: "\<And>k a b. npairs (Sample k (a @ b)) other rbins period
            = map2 (+) (npairs (Sample k a) other rbins period)
                       (npairs (Sample k b) other rbins period)"
    and T: "0 < T"
  shows "chunked_npairs npairs T s other rbins period = npairs s other rbins period"
proof -
  let ?f = "\<lambda>rs. npairs (Sample (ncols s) rs) other rbins period"
  let ?cs = "chop (split_sizes (len s) T) (rows s)"
  have ne: "?cs \<noteq> []"
    using T length_chop [of "split_sizes (len s) T" "rows s"] length_split_sizes [OF T, of "len s"]
    by auto
  have "chunked_npairs npairs T s other rbins period = np_sum_axis0 (map ?f ?cs)"
    by (simp add: chunked_npairs_def array_split_def comp_def)
  also have "\<dots> = ?f (concat ?cs)"
    by (rule np_sum_axis0_chunks [where f = ?f, OF add ne])
  also have "concat ?cs = rows s"
    by (rule concat_chop) (simp add: sum_list_split_sizes [OF T] len_def)
  finally show ?thesis by simp
qed

lemma product_append_left:
  "List.product (xs @ ys) zs = List.product xs zs @ List.product ys zs"
  by (induction xs) simp_all

lemma npairs_brute_additive:
  "npairs_brute (Sample k (a @ b)) other rbins period
     = map2 (+) (npairs_brute (Sample k a) other rbins period)
                (npairs_brute (Sample k b) other rbins period)"
  unfolding npairs_brute_def
  by (rule nth_equalityI) (simp_all add: product_append_left)

text \<open>
  C4. For every pair of point sets, bin edges and periodicity, and every worker count
  \<open>T \<ge> 1\<close>, the chunked path of \<open>pair_counts\<close> (split one set into \<open>T\<close> contiguous
  partitions, count each against the full other set, add the cumulative counts
  element-wise) gives the same per-bin counts as the single-shot path \<open>T = 1\<close>, provided
  the pair counter is additive over a partition of its first argument.
\<close>

theorem pair_counts_chunk_invariant:
  assumes add: "\<And>k a b other. npairs (Sample k (a @ b)) other rbins period
            = map2 (+) (npairs (Sample k a) other rbins period)
                       (npairs (Sample k b) other rbins period)"
    and T: "1 \<le> T"
  shows "pair_counts npairs sample1 sample2 rbins period T
           = pair_counts npairs sample1 sample2 rbins period 1"
proof -
  have pos: "0 < nat T" using T by simp
  have c: "chunked_npairs npairs (nat T) s other rbins period = npairs s other rbins period"
    for s other
    using add pos
    by (rule chunked_npairs_single_shot
        [where npairs = npairs and rbins = rbins and period = period and T = "nat T"])
  show ?thesis using T by (simp add: pair_counts_def c Let_def)
qed

theorem pair_counts_chunk_invariant_witness:
  "pair_counts npairs_brute (Sample 1 [[0], [1], [3]]) (Sample 1 [[0], [2]]) [1, 2]
       [Fin 10] 2
     = pair_counts npairs_brute (Sample 1 [[0], [1], [3]]) (Sample 1 [[0], [2]]) [1, 2]
       [Fin 10] 1"
  by (rule pair_counts_chunk_invariant) (simp_all add: npairs_brute_additive)

section \<open>Properties of the array helpers\<close>

lemma length_np_diff: "length (np_diff xs) = length xs - 1"
  by (simp add: np_diff_def)

lemma np_diff_nth: "i + 1 < length xs \<Longrightarrow> np_diff xs ! i = xs ! (i + 1) - xs ! i"
  by (simp add: np_diff_def nth_tl)

lemma np_diff_single: "length xs \<le> 1 \<Longrightarrow> np_diff xs = []"
  by (cases xs) (simp_all add: np_diff_def)

lemma length_np_sum_axis0:
  "rs \<noteq> [] \<Longrightarrow> \<forall>r \<in> set rs. length r = n \<Longrightarrow> length (np_sum_axis0 rs) = n"
proof (induction rs rule: np_sum_axis0.induct)
  case 1
  then show ?case by simp
next
  case (2 r)
  then show ?case by simp
next
  case (3 r v va)
  then show ?case by simp
qed

lemma broadcastable_sym: "broadcastable m n = broadcastable n m"
  by (auto simp: broadcastable_def)

lemma bdim_sym: "broadcastable m n \<Longrightarrow> bdim m n = bdim n m"
  by (auto simp: broadcastable_def bdim_def)

lemma np_all_eq_sym: "np_all_eq a b = np_all_eq b a"
proof (cases "broadcastable (len a) (len b) \<and> broadcastable (ncols a) (ncols b)")
  case True
  then have "bdim (len a) (len b) = bdim (len b) (len a)"
    and "bdim (ncols a) (ncols b) = bdim (ncols b) (ncols a)"
    by (auto intro: bdim_sym)
  then show ?thesis
    unfolding np_all_eq_def list_all_iff
    using broadcastable_sym [of "len a" "len b"] broadcastable_sym [of "ncols a" "ncols b"]
    by (simp add: eq_commute [of "bget (bget (rows a) _) _"])
next
  case False
  then show ?thesis
    using broadcastable_sym [of "len a" "len b"] broadcastable_sym [of "ncols a" "ncols b"]
    by (auto simp: np_all_eq_def)
qed

section \<open>Analytic random counts\<close>

lemma ext_prod_Fin: "ext_prod (map Fin ps) = Fin (prod_list ps)"
  by (induction ps) (simp_all add: ext_prod_def)

lemma nball_volume_spec: "nball_volume gam r k = spec_ball_volume gam k r"
  by (simp add: nball_volume_def spec_ball_volume_def)

lemma analytic_randoms_D1R:
  assumes "i + 1 < length rbins"
  shows "fst (analytic_randoms gam sample1 sample2 rbins (map Fin ps) k) ! i
     = (real (len sample1)) ^ 2
       * (spec_ball_volume gam k (rbins ! (i + 1)) - spec_ball_volume gam k (rbins ! i))
       / prod_list ps"
proof -
  have i: "i < length rbins - 1" using assms by simp
  have "fst (analytic_randoms gam sample1 sample2 rbins (map Fin ps) k)
      = map (\<lambda>v. real (len sample1) * (v * (real (len sample1) / prod_list ps)))
            (np_diff (map (\<lambda>R. nball_volume gam R k) rbins))"
    by (simp add: analytic_randoms_def Let_def ext_prod_Fin)
  then show ?thesis
    using i assms
    by (simp add: length_np_diff np_diff_nth nball_volume_spec power2_eq_square)
qed

lemma analytic_randoms_RR:
  assumes "i + 1 < length rbins" and "\<not> np_all_eq sample1 sample2"
  shows "snd (snd (analytic_randoms gam sample1 sample2 rbins (map Fin ps) k)) ! i
     = real (len sample1) * real (len sample2)
       * (spec_ball_volume gam k (rbins ! (i + 1)) - spec_ball_volume gam k (rbins ! i))
       / prod_list ps"
proof -
  have i: "i < length rbins - 1" using assms by simp
  have "snd (snd (analytic_randoms gam sample1 sample2 rbins (map Fin ps) k))
      = map (\<lambda>v. v * (real (len sample1) * real (len sample2) / prod_list ps))
            (np_diff (map (\<lambda>R. nball_volume gam R k) rbins))"
    using assms(2) by (simp add: analytic_randoms_def Let_def ext_prod_Fin)
  then show ?thesis
    using i assms(1)
    by (simp add: length_np_diff np_diff_nth nball_volume_spec)
qed

lemma analytic_randoms_auto:
  "np_all_eq sample1 sample2 \<Longrightarrow>
     snd (snd (analytic_randoms gam sample1 sample2 rbins period k))
       = fst (analytic_randoms gam sample1 sample2 rbins period k)"
  by (simp add: analytic_randoms_def Let_def)

text \<open>
  C2. With periodicity active (every period entry a finite box length) and no random
  catalogue, the data-random count of \<open>sample1\<close> in bin \<open>i\<close> is
  \<open>N1\<^sup>2 (V(r\<^bsub>i+1\<^esub>) - V(r\<^bsub>i\<^esub>)) / V\<^bsub>box\<^esub>\<close>, with \<open>V\<close> the volume of the \<open>k\<close>-ball and
  \<open>V\<^bsub>box\<^esub>\<close> the product of the box lengths; for two samples that are not element-wise
  equal the random-random count of the bin is \<open>N1 N2 (V(r\<^bsub>i+1\<^esub>) - V(r\<^bsub>i\<^esub>)) / V\<^bsub>box\<^esub>\<close>.
  The box lengths are positive: a float division by a zero volume is not a real number.
\<close>

theorem analytic_random_counts:
  assumes "i + 1 < length rbins"
    and "\<forall>p \<in> set ps. 0 < p"
  shows "\<exists>D1R D2R RR.
      random_counts npairs gam sample1 sample2 None rbins (map Fin ps) True k N_threads
        = Inr (D1R, D2R, RR)
      \<and> length D1R = length rbins - 1 \<and> length RR = length rbins - 1
      \<and> D1R ! i = (real (len sample1)) ^ 2
           * (spec_ball_volume gam k (rbins ! (i + 1)) - spec_ball_volume gam k (rbins ! i))
           / prod_list ps
      \<and> (\<not> np_all_eq sample1 sample2 \<longrightarrow>
           RR ! i = real (len sample1) * real (len sample2)
           * (spec_ball_volume gam k (rbins ! (i + 1)) - spec_ball_volume gam k (rbins ! i))
           / prod_list ps)"
proof -
  obtain D1R D2R RR
    where a: "analytic_randoms gam sample1 sample2 rbins (map Fin ps) k = (D1R, D2R, RR)"
    by (cases "analytic_randoms gam sample1 sample2 rbins (map Fin ps) k") auto
  have r: "random_counts npairs gam sample1 sample2 None rbins (map Fin ps) True k N_threads
        = Inr (D1R, D2R, RR)"
    by (simp add: random_counts_def a)
  have l1: "length D1R = length rbins - 1"
    using a by (auto simp: analytic_randoms_def Let_def length_np_diff split: if_splits)
  have l2: "length RR = length rbins - 1"
    using a by (auto simp: analytic_randoms_def Let_def length_np_diff split: if_splits)
  have d: "D1R ! i = (real (len sample1)) ^ 2
           * (spec_ball_volume gam k (rbins ! (i + 1)) - spec_ball_volume gam k (rbins ! i))
           / prod_list ps"
    using analytic_randoms_D1R [OF assms(1), of gam sample1 sample2 ps k] a by simp
  have f: "\<not> np_all_eq sample1 sample2 \<Longrightarrow> RR ! i = real (len sample1) * real (len sample2)
           * (spec_ball_volume gam k (rbins ! (i + 1)) - spec_ball_volume gam k (rbins ! i))
           / prod_list ps"
    using analytic_randoms_RR [OF assms(1), of sample1 sample2 gam ps k] a by simp
  show ?thesis using r l1 l2 d f by auto
qed

lemma two_points_not_one:
  "\<not> np_all_eq (Sample 2 [[0, 0], [1, 1]]) (Sample 2 [[0, 0]])"
  by (simp add: np_all_eq_def len_def broadcastable_def bdim_def bget_def upt_rec)

theorem analytic_random_counts_witness:
  "\<exists>D1R D2R RR.
      random_counts npairs_brute gamma_at_two (Sample 2 [[0, 0], [1, 1]]) (Sample 2 [[0, 0]])
        None [1, 2] (map Fin [10, 10]) True 2 1 = Inr (D1R, D2R, RR)
      \<and> D1R ! 0 = 3 * pi / 25 \<and> RR ! 0 = 3 * pi / 50"
proof -
  have i: "0 + 1 < length [1, 2 :: real]" by simp
  have p: "\<forall>p \<in> set [10, 10 :: real]. 0 < p" by simp
  obtain D1R D2R RR where
    r: "random_counts npairs_brute gamma_at_two (Sample 2 [[0, 0], [1, 1]]) (Sample 2 [[0, 0]])
        None [1, 2] (map Fin [10, 10]) True 2 1 = Inr (D1R, D2R, RR)"
    and d: "D1R ! 0 = (real (len (Sample 2 [[0, 0], [1, 1]]))) ^ 2
           * (spec_ball_volume gamma_at_two 2 ([1, 2] ! (0 + 1))
              - spec_ball_volume gamma_at_two 2 ([1, 2] ! 0))
           / prod_list [10, 10]"
    and c: "\<not> np_all_eq (Sample 2 [[0, 0], [1, 1]]) (Sample 2 [[0, 0]]) \<longrightarrow>
           RR ! 0 = real (len (Sample 2 [[0, 0], [1, 1]])) * real (len (Sample 2 [[0, 0]]))
           * (spec_ball_volume gamma_at_two 2 ([1, 2] ! (0 + 1))
              - spec_ball_volume gamma_at_two 2 ([1, 2] ! 0))
           / prod_list [10, 10]"
    using analytic_random_counts [OF i p, of npairs_brute gamma_at_two
        "Sample 2 [[0, 0], [1, 1]]" "Sample 2 [[0, 0]]" 2 1]
    by blast
  have d': "D1R ! 0 = 3 * pi / 25"
    using d by (simp add: spec_ball_volume_def gamma_at_two_def len_def)
  have c': "RR ! 0 = 3 * pi / 50"
    using c two_points_not_one by (simp add: spec_ball_volume_def gamma_at_two_def len_def)
  show ?thesis using r d' c' by blast
qed

section \<open>The checks of the inputs\<close>

lemma ncols_down_sample: "ncols (fst (down_sample shuffle g s m)) = ncols s"
  by (simp add: down_sample_def split: prod.splits)

lemma ncols_down_sample_data:
  "down_sample_data shuffle g sample1 sample2 m = (s1, s2, g') \<Longrightarrow>
     ncols s1 = ncols sample1 \<and> ncols s2 = ncols sample2"
  unfolding down_sample_data_def
  by (auto split: prod.splits if_splits simp: down_sample_def)

lemma funpow_ext_min2_PInf: "(ext_min2 PInf ^^ n) PInf = PInf"
  by (induction n) simp_all

lemma ext_min_replicate_PInf: "0 < k \<Longrightarrow> ext_min (replicate k PInf) = PInf"
  by (cases k) (simp_all add: ext_min_def funpow_ext_min2_PInf)

lemma check_parameters_no_randoms_no_period:
  "\<exists>msg. check_parameters s1 s2 None rbins (replicate k PInf) False estimator
           = Inl (ValueError msg)"
proof (cases "k = 0")
  case True
  then show ?thesis by (simp add: check_parameters_def)
next
  case False
  then have "ext_min (replicate k PInf) = PInf" by (simp add: ext_min_replicate_PInf)
  then show ?thesis using False by (simp add: check_parameters_def)
qed

lemma process_inputs_no_randoms_no_period:
  "\<exists>msg. process_inputs shuffle g sample1 rbins sample2 None None max_sample_size estimator
            = Inl (ValueError msg)"
proof -
  let ?s2 = "case sample2 of Some s \<Rightarrow> s | None \<Rightarrow> sample1"
  obtain s1 s2 g' where d: "down_sample_data shuffle g sample1 ?s2 max_sample_size = (s1, s2, g')"
    by (cases "down_sample_data shuffle g sample1 ?s2 max_sample_size") auto
  obtain msg where c: "check_parameters s1 s2 None rbins (replicate (ncols sample1) PInf) False
      estimator = Inl (ValueError msg)"
    using check_parameters_no_randoms_no_period by blast
  have "process_inputs shuffle g sample1 rbins sample2 None None max_sample_size estimator
      = Inl (ValueError msg)"
    by (simp add: process_inputs_def process_period_def bind_err_def d c)
  then show ?thesis by blast
qed

text \<open>
  C7. A call of \<open>two_point_correlation_function\<close> with no period and no random catalogue
  raises a \<^verbatim>\<open>ValueError\<close>: the processing of the inputs, which counts no pair, already
  ends in that error, and the function returns it with no result.
\<close>

theorem no_period_no_randoms_raises:
  "\<exists>msg. process_inputs shuffle g sample1 rbins sample2 None None max_sample_size estimator
            = Inl (ValueError msg)
        \<and> two_point_correlation_function npairs gam shuffle g sample1 rbins sample2 None None
            max_sample_size estimator N_threads = Inl (ValueError msg)"
proof -
  obtain msg where
    p: "process_inputs shuffle g sample1 rbins sample2 None None max_sample_size estimator
          = Inl (ValueError msg)"
    using process_inputs_no_randoms_no_period
      [of shuffle g sample1 rbins sample2 max_sample_size estimator]
    by blast
  have "two_point_correlation_function npairs gam shuffle g sample1 rbins sample2 None None
            max_sample_size estimator N_threads = Inl (ValueError msg)"
    unfolding two_point_correlation_function_def p bind_err_def by simp
  then show ?thesis using p by blast
qed

theorem no_period_no_randoms_raises_witness:
  "two_point_correlation_function npairs_brute (\<lambda>x. 1) keep_order ()
      (Sample 3 [[0, 0, 0], [1, 1, 1]]) [1, 2] None None None 5 ''Natural'' 1
    = Inl (ValueError ''If no PBCs are specified, randoms must be provided.'')"
proof -
  obtain msg where
    a: "process_inputs keep_order () (Sample 3 [[0, 0, 0], [1, 1, 1]]) [1, 2] None None None 5
          ''Natural'' = Inl (ValueError msg)"
    and b: "two_point_correlation_function npairs_brute (\<lambda>x. 1) keep_order ()
      (Sample 3 [[0, 0, 0], [1, 1, 1]]) [1, 2] None None None 5 ''Natural'' 1
        = Inl (ValueError msg)"
    using no_period_no_randoms_raises [of keep_order "()" "Sample 3 [[0, 0, 0], [1, 1, 1]]"
        "[1, 2]" None 5 "''Natural''" npairs_brute "\<lambda>x. 1" 1]
    by blast
  have "process_inputs keep_order () (Sample 3 [[0, 0, 0], [1, 1, 1]]) [1, 2] None None None 5
          ''Natural'' = Inl (ValueError ''If no PBCs are specified, randoms must be provided.'')"
    by (simp add: process_inputs_def process_period_def bind_err_def down_sample_data_def
        len_def np_all_eq_def check_parameters_def ext_min_def numeral_3_eq_3)
  then have "msg = ''If no PBCs are specified, randoms must be provided.''"
    using a by simp
  then show ?thesis using b by simp
qed
section \<open>A single bin edge\<close>

lemma array_split_nonempty: "0 < T \<Longrightarrow> array_split s T \<noteq> []"
  using length_chop [of "split_sizes (len s) T" "rows s"] length_split_sizes [of T "len s"]
  by (auto simp: array_split_def)

lemma chunked_npairs_single_edge:
  assumes "\<And>a b. length (npairs a b rbins period) = length rbins"
    and "0 < T" and "length rbins \<le> 1"
  shows "np_diff (chunked_npairs npairs T s other rbins period) = []"
proof -
  have "length (chunked_npairs npairs T s other rbins period) = length rbins"
    unfolding chunked_npairs_def
    by (rule length_np_sum_axis0) (simp_all add: array_split_nonempty [OF assms(2)] assms(1))
  then show ?thesis using assms(3) by (simp add: np_diff_single)
qed

lemma pair_counts_single_edge:
  assumes len: "\<And>a b. length (npairs a b rbins period) = length rbins"
    and T: "1 \<le> N_threads" and one: "length rbins \<le> 1"
  shows "pair_counts npairs s1 s2 rbins period N_threads = Inr ([], [], [])"
proof -
  have a: "np_diff (npairs a b rbins period) = []" for a b
    using len [of a b] one by (simp add: np_diff_single)
  have pos: "0 < nat N_threads" using T by simp
  have b: "np_diff (chunked_npairs npairs (nat N_threads) a c rbins period) = []" for a c
    using len pos one by (rule chunked_npairs_single_edge)
  show ?thesis using T by (simp add: pair_counts_def a b Let_def)
qed

lemma counted_randoms_single_edge:
  assumes len: "\<And>a b. length (npairs a b rbins period) = length rbins"
    and T: "1 \<le> N_threads" and one: "length rbins \<le> 1"
  shows "counted_randoms npairs s1 s2 R rbins period N_threads
           = Inr ([], (if np_all_eq s1 s2 then None else Some []), [])"
proof -
  have a: "np_diff (npairs a b rbins period) = []" for a b
    using len [of a b] one by (simp add: np_diff_single)
  have pos: "0 < nat N_threads" using T by simp
  have b: "np_diff (chunked_npairs npairs (nat N_threads) a c rbins period) = []" for a c
    using len pos one by (rule chunked_npairs_single_edge)
  show ?thesis using T by (simp add: counted_randoms_def a b Let_def)
qed

lemma analytic_randoms_single_edge:
  "length rbins \<le> 1 \<Longrightarrow>
     analytic_randoms gam s1 s2 rbins period k
       = ([], (if np_all_eq s1 s2 then None else Some []), [])"
  by (simp add: analytic_randoms_def Let_def np_diff_single)

lemma TP_estimator_empty:
  "estimator \<in> set list_estimators \<Longrightarrow> f \<noteq> 0 \<Longrightarrow> TP_estimator [] [] [] f estimator = Inr []"
  by (drule est_cases) (auto simp: TP_estimator_def map3_def)

lemma check_parameters_estimator:
  "check_parameters s1 s2 randoms rbins period PBCs estimator = Inr u \<Longrightarrow>
     estimator \<in> set list_estimators"
  by (simp add: check_parameters_def split: if_splits)

lemma process_inputs_estimator:
  "process_inputs shuffle g sample1 rbins sample2 randoms period m estimator = Inr inp \<Longrightarrow>
     estimator \<in> set list_estimators"
  unfolding process_inputs_def bind_err_def Let_def
  by (auto split: sum.splits prod.splits dest: check_parameters_estimator)

lemma process_inputs_Some_period:
  "process_inputs shuffle g sample1 rbins sample2 randoms (Some p) m estimator = Inr inp \<Longrightarrow>
     in_PBCs inp = True"
  unfolding process_inputs_def bind_err_def Let_def
  by (auto split: sum.splits prod.splits period_arg.splits if_splits
      simp: process_period_def)

lemma process_inputs_PBCs:
  assumes "process_inputs shuffle g sample1 rbins sample2 randoms period m estimator = Inr inp"
    and "randoms = None"
  shows "in_PBCs inp = True"
proof (cases period)
  case None
  then show ?thesis
    using assms process_inputs_no_randoms_no_period [of shuffle g sample1 rbins sample2 m estimator]
    by auto
next
  case (Some p)
  show ?thesis using assms(1) unfolding Some by (rule process_inputs_Some_period)
qed

lemma estimate_empty:
  assumes "estimator \<in> set list_estimators"
    and "f1 \<noteq> 0" and "f2 \<noteq> 0" and "f3 \<noteq> 0"
  shows "estimate s1 s2 randoms PBCs estimator (f1, f2, f3) ([], [], [])
           ([], (if np_all_eq s1 s2 then None else Some []), [])
         = Inr (if np_all_eq s2 s1 then Single [] else Triple [] [] [])"
  using assms by (simp add: estimate_def bind_err_def TP_estimator_empty np_all_eq_sym [of s2 s1])

lemma factors_nonzero:
  assumes "0 < len s1" and "0 < len s2"
    and "case randoms of None \<Rightarrow> True | Some R \<Rightarrow> 0 < len R"
  shows "\<exists>f1 f2 f3. factors s1 s2 randoms = Inr (f1, f2, f3) \<and> f1 \<noteq> 0 \<and> f2 \<noteq> 0 \<and> f3 \<noteq> 0"
  using assms by (cases randoms) (simp_all add: factors_def)


text \<open>
  C9. An otherwise valid call of \<open>two_point_correlation_function\<close> with one bin edge
  (the inputs pass the checks, the samples and the random catalogue are not empty,
  \<open>N_threads \<ge> 1\<close>, the pair counter returns one cumulative count per edge) raises no
  error and returns empty per-bin arrays: one for an auto-correlation, three for two
  samples.
\<close>

theorem single_edge_empty_result:
  assumes inp: "process_inputs shuffle g sample1 [r] sample2 randoms period max_sample_size
                  estimator = Inr inp"
    and n1: "0 < len (in_sample1 inp)" and n2: "0 < len (in_sample2 inp)"
    and nr: "case randoms of None \<Rightarrow> True | Some R \<Rightarrow> 0 < len R"
    and T: "1 \<le> N_threads"
    and len: "\<And>a b. length (npairs a b [r] (in_period inp)) = length [r]"
  shows "two_point_correlation_function npairs gam shuffle g sample1 [r] sample2 randoms period
           max_sample_size estimator N_threads
         = Inr (if np_all_eq (in_sample2 inp) (in_sample1 inp) then Single []
                else Triple [] [] [])"
proof -
  let ?s1 = "in_sample1 inp" and ?s2 = "in_sample2 inp"
  have est: "estimator \<in> set list_estimators" using inp by (rule process_inputs_estimator)
  obtain f1 f2 f3 where f: "factors ?s1 ?s2 randoms = Inr (f1, f2, f3)"
    and nz: "f1 \<noteq> 0" "f2 \<noteq> 0" "f3 \<noteq> 0"
    using factors_nonzero [OF n1 n2 nr] by blast
  have one: "length [r] \<le> 1" by simp
  have pc: "pair_counts npairs ?s1 ?s2 [r] (in_period inp) N_threads = Inr ([], [], [])"
    by (rule pair_counts_single_edge
        [where npairs = npairs and rbins = "[r]" and period = "in_period inp", OF len T one])
  have rc: "random_counts npairs gam ?s1 ?s2 randoms [r] (in_period inp) (in_PBCs inp)
              (in_k inp) N_threads
            = Inr ([], (if np_all_eq ?s1 ?s2 then None else Some []), [])"
  proof (cases randoms)
    case None
    have "in_PBCs inp = True" using inp None by (rule process_inputs_PBCs)
    then show ?thesis
      unfolding random_counts_def None
      by (simp only: analytic_randoms_single_edge [OF one] if_False option.case simp_thms)
  next
    case (Some R)
    show ?thesis
      unfolding random_counts_def Some
      by (simp only: counted_randoms_single_edge
          [where npairs = npairs and rbins = "[r]" and period = "in_period inp", OF len T one] option.case if_cancel)
  qed
  show ?thesis
    unfolding two_point_correlation_function_def
    by (simp only: inp f pc rc bind_err_def sum.case estimate_empty [OF est nz])
qed

lemmas eval_defs = process_inputs_def process_period_def down_sample_data_def down_sample_def
  keep_order_def np_all_eq_def len_def broadcastable_def bdim_def bget_def check_parameters_def
  ext_min_def ext_max_def list_estimators_def bind_err_def upt_rec Let_def

theorem single_edge_empty_result_witness:
  "two_point_correlation_function npairs_brute gamma_at_two keep_order ()
      (Sample 2 [[0, 0], [1, 1]]) [1] None None (Some (PVector [Fin 10, Fin 10])) 5 ''Natural'' 2
   = Inr (Single [])"
proof -
  let ?inp = "\<lparr> in_sample1 = Sample 2 [[0, 0], [1, 1]], in_sample2 = Sample 2 [[0, 0], [1, 1]],
          in_period = [Fin 10, Fin 10], in_PBCs = True, in_k = 2, in_rng = () \<rparr>"
  have inp: "process_inputs keep_order () (Sample 2 [[0, 0], [1, 1]]) [1] None None
      (Some (PVector [Fin 10, Fin 10])) 5 ''Natural'' = Inr ?inp"
    by (simp add: eval_defs)
  have eq: "np_all_eq (in_sample2 ?inp) (in_sample1 ?inp)"
    by (simp add: np_all_eq_def len_def broadcastable_def bdim_def bget_def upt_rec)
  have "two_point_correlation_function npairs_brute gamma_at_two keep_order ()
      (Sample 2 [[0, 0], [1, 1]]) [1] None None (Some (PVector [Fin 10, Fin 10])) 5 ''Natural'' 2
    = Inr (if np_all_eq (in_sample2 ?inp) (in_sample1 ?inp) then Single []
           else Triple [] [] [])"
    by (rule single_edge_empty_result [OF inp])
       (simp_all add: len_def npairs_brute_def)
  then show ?thesis by (simp only: eq if_True)
qed

section \<open>An oversized sample with no second sample\<close>

text \<open>
  Two points, \<^verbatim>\<open>sample2\<close> absent, \<^verbatim>\<open>max_sample_size = 1\<close>: the down-sampling of lines 140
  to 151 leaves \<^verbatim>\<open>sample2\<close>, which is the original \<^verbatim>\<open>sample1\<close>, as it is, and replaces
  \<^verbatim>\<open>sample1\<close> by one of its points. The two are no longer element-wise equal.
\<close>

lemma oversized_inputs_processed:
  "process_inputs keep_order g (Sample 2 [[0, 0], [1, 1]]) [1, 2] None None
      (Some (PVector [Fin 10, Fin 10])) 1 ''Natural''
   = Inr \<lparr> in_sample1 = Sample 2 [[0, 0]], in_sample2 = Sample 2 [[0, 0], [1, 1]],
          in_period = [Fin 10, Fin 10], in_PBCs = True, in_k = 2, in_rng = g \<rparr>"
  by (simp add: eval_defs)

lemma one_point_not_two: "\<not> np_all_eq (Sample 2 [[0, 0]]) (Sample 2 [[0, 0], [1, 1]])"
  by (simp add: np_all_eq_def len_def broadcastable_def bdim_def bget_def upt_rec)

lemma oversized_random_counts:
  "random_counts npairs gamma_at_two (Sample 2 [[0, 0]]) (Sample 2 [[0, 0], [1, 1]]) None [1, 2]
      [Fin 10, Fin 10] True 2 N_threads
   = Inr ([3 * pi / 100], Some [12 * pi / 100], [6 * pi / 100])"
  by (simp add: random_counts_def analytic_randoms_def one_point_not_two Let_def nball_volume_def
      gamma_at_two_def np_diff_def ext_prod_def len_def)

text \<open>
  C3. At that call (periodic box, no random catalogue, no second sample) the
  random-random count is twice the data-random count, not equal to it: the function
  takes the cross-correlation branch of \<open>random_counts\<close>.
\<close>

theorem oversized_auto_call_RR_differs:
  "\<exists>inp D1R D2R RR.
     process_inputs keep_order g (Sample 2 [[0, 0], [1, 1]]) [1, 2] None None
       (Some (PVector [Fin 10, Fin 10])) 1 ''Natural'' = Inr inp
     \<and> random_counts npairs gamma_at_two (in_sample1 inp) (in_sample2 inp) None [1, 2]
         (in_period inp) (in_PBCs inp) (in_k inp) 1 = Inr (D1R, D2R, RR)
     \<and> D1R = [3 * pi / 100] \<and> RR = [6 * pi / 100] \<and> RR \<noteq> D1R"
proof -
  have "(6 * pi / 100 :: real) \<noteq> 3 * pi / 100" by simp
  then show ?thesis using oversized_inputs_processed [of g] oversized_random_counts [of npairs 1] by simp
qed

text \<open>
  C6. At that call the function returns three arrays, not the single auto-correlation
  array.
\<close>

theorem absent_sample2_returns_triple:
  "\<exists>xi_11 xi_12 xi_22.
     two_point_correlation_function npairs gam keep_order g (Sample 2 [[0, 0], [1, 1]]) [1, 2]
       None None (Some (PVector [Fin 10, Fin 10])) 1 ''Natural'' 1
     = Inr (Triple xi_11 xi_12 xi_22)"
  unfolding two_point_correlation_function_def oversized_inputs_processed
  by (simp add: bind_err_def factors_def
      pair_counts_def random_counts_def analytic_randoms_def one_point_not_two two_points_not_one Let_def
      estimate_def TP_estimator_def)

section \<open>Jackknife errors\<close>

lemma nf_sum_Some: "nf_sum (map Some xs) = Some (sum_list xs)"
  by (induction xs) (simp_all add: nf_sum_def nf_add_def)

lemma nf_sum_char:
  "nf_sum xs = (if None \<in> set xs then None else Some (sum_list (map the xs)))"
  by (induction xs) (auto simp: nf_sum_def nf_add_def split: option.splits)

lemma nf_sum_mset: "mset xs = mset ys \<Longrightarrow> nf_sum xs = nf_sum ys"
proof -
  assume m: "mset xs = mset ys"
  then have s: "set xs = set ys" by (rule mset_eq_setD)
  have "mset (map the xs) = mset (map the ys)" using m by (metis mset_map)
  then have "sum_list (map the xs) = sum_list (map the ys)"
    by (metis sum_mset_sum_list)
  then show ?thesis using s by (simp add: nf_sum_char)
qed

lemma jackknife_errors_permutation:
  assumes "mset sub' = mset sub"
  shows "jackknife_errors sub' full N = jackknife_errors sub full N"
proof -
  have "nf_sum (map (\<lambda>row. row ! j) (map f sub')) = nf_sum (map (\<lambda>row. row ! j) (map f sub))"
    for j and f :: "real option list \<Rightarrow> real option list"
    by (rule nf_sum_mset) (metis assms mset_map)
  then show ?thesis by (simp add: jackknife_errors_def Let_def comp_def)
qed

lemma map2_nf_sub_Some:
  "map2 nf_sub (map Some xs) (map Some ys) = map Some (map2 (-) xs ys)"
proof (induction xs arbitrary: ys)
  case Nil
  then show ?case by simp
next
  case (Cons x xs)
  then show ?case by (cases ys) (simp_all add: nf_sub_def)
qed

lemma jackknife_errors_finite:
  assumes N: "0 < N" and rows: "\<forall>row \<in> set sub. length row = length full"
  shows "jackknife_errors (map (map Some) sub) (map Some full) N
     = map (\<lambda>j. Some (sqrt (real_of_int (N - 1) / real_of_int N
                              * (\<Sum>row\<leftarrow>sub. (row ! j - full ! j) ^ 2))))
           [0..<length full]"
proof -
  have col: "nf_sum (map (\<lambda>row. row ! j)
               (map (map (map_option (\<lambda>x. x ^ 2)))
                 (map (\<lambda>row. map2 nf_sub row (map Some full)) (map (map Some) sub))))
           = Some (\<Sum>row\<leftarrow>sub. (row ! j - full ! j) ^ 2)"
    if j: "j < length full" for j
  proof -
    have "map (\<lambda>row. row ! j)
               (map (map (map_option (\<lambda>x. x ^ 2)))
                 (map (\<lambda>row. map2 nf_sub row (map Some full)) (map (map Some) sub)))
          = map Some (map (\<lambda>row. (row ! j - full ! j) ^ 2) sub)"
      using rows j by (simp add: map2_nf_sub_Some comp_def)
    then show ?thesis by (simp only: nf_sum_Some)
  qed
  have cols: "map (\<lambda>j. nf_sum (map (\<lambda>row. row ! j)
               (map (map (map_option (\<lambda>x. x ^ 2)))
                 (map (\<lambda>row. map2 nf_sub row (map Some full)) (map (map Some) sub)))))
               [0..<length full]
          = map (\<lambda>j. Some (\<Sum>row\<leftarrow>sub. (row ! j - full ! j) ^ 2)) [0..<length full]"
    by (rule map_cong [OF refl]) (rule col, simp)
  have nn: "\<not> real_of_int (N - 1) / real_of_int N * (\<Sum>row\<leftarrow>sub. (row ! j - full ! j) ^ 2) < 0"
    for j
  proof -
    have "0 \<le> real_of_int (N - 1) / real_of_int N" using N by simp
    moreover have "0 \<le> (\<Sum>row\<leftarrow>sub. (row ! j - full ! j) ^ 2)"
      by (rule sum_list_nonneg) auto
    ultimately have "0 \<le> real_of_int (N - 1) / real_of_int N
        * (\<Sum>row\<leftarrow>sub. (row ! j - full ! j) ^ 2)"
      by (rule mult_nonneg_nonneg)
    then show ?thesis by simp
  qed
  have fac: "np_div (real_of_int (N - 1)) (real_of_int N)
      = Some (real_of_int (N - 1) / real_of_int N)"
    using N by (simp add: np_div_def)
  have step: "nf_sqrt (nf_mul (Some c) (Some v)) = (if c * v < 0 then None else Some (sqrt (c * v)))"
    for c v
    by (simp add: nf_sqrt_def nf_mul_def)
  show ?thesis
    unfolding jackknife_errors_def Let_def length_map fac cols
    by (simp only: map_map comp_def step nn if_False)
qed

text \<open>
  C5. For a full-sample estimate and leave-one-out estimates with finite entries, one
  row per subvolume, the jackknife error of bin \<open>j\<close> is
  \<open>sqrt ((N - 1)/N \<sqdot> \<Sum>\<^bsub>rows\<^esub> (\<xi>\<^bsub>sub\<^esub> - \<xi>\<^bsub>full\<^esub>)\<^sup>2)\<close> with \<open>N\<close> the number of subvolumes, and a
  permutation of the rows does not change it.
\<close>

theorem jackknife_errors_formula:
  assumes "0 < N"
    and "\<forall>row \<in> set sub. length row = length full"
    and "mset sub' = mset sub"
  shows "jackknife_errors (map (map Some) sub) (map Some full) N
     = map (\<lambda>j. Some (sqrt (real_of_int (N - 1) / real_of_int N
                              * (\<Sum>row\<leftarrow>sub. (row ! j - full ! j) ^ 2))))
           [0..<length full]
     \<and> jackknife_errors (map (map Some) sub') (map Some full) N
       = jackknife_errors (map (map Some) sub) (map Some full) N"
proof
  show "jackknife_errors (map (map Some) sub) (map Some full) N
     = map (\<lambda>j. Some (sqrt (real_of_int (N - 1) / real_of_int N
                              * (\<Sum>row\<leftarrow>sub. (row ! j - full ! j) ^ 2))))
           [0..<length full]"
    using assms(1) assms(2) by (rule jackknife_errors_finite)
  have "mset (map (map Some) sub') = mset (map (map Some) sub)"
    using assms(3) by (metis mset_map)
  then show "jackknife_errors (map (map Some) sub') (map Some full) N
       = jackknife_errors (map (map Some) sub) (map Some full) N"
    by (rule jackknife_errors_permutation)
qed

theorem jackknife_errors_formula_witness:
  "jackknife_errors [[Some 1, Some 2], [Some 3, Some 4]] [Some 2, Some 3] 2 = [Some 1, Some 1]
   \<and> jackknife_errors [[Some 3, Some 4], [Some 1, Some 2]] [Some 2, Some 3] 2
       = jackknife_errors [[Some 1, Some 2], [Some 3, Some 4]] [Some 2, Some 3] 2"
proof -
  have n: "0 < (2 :: int)" by simp
  have r: "\<forall>row \<in> set [[1, 2], [3, 4 :: real]]. length row = length [2, 3 :: real]" by simp
  have m: "mset [[3, 4], [1, 2 :: real]] = mset [[1, 2], [3, 4]]" by simp
  have "jackknife_errors (map (map Some) [[1, 2], [3, 4]]) (map Some [2, 3]) 2
     = map (\<lambda>j. Some (sqrt (real_of_int (2 - 1) / real_of_int 2
                 * (\<Sum>row\<leftarrow>[[1, 2], [3, 4]]. (row ! j - [2, 3] ! j) ^ 2))))
           [0..<length [2, 3 :: real]]
     \<and> jackknife_errors (map (map Some) [[3, 4], [1, 2]]) (map Some [2, 3]) 2
       = jackknife_errors (map (map Some) [[1, 2], [3, 4]]) (map Some [2, 3]) 2"
    by (rule jackknife_errors_formula [OF n r m])
  then show ?thesis by (simp add: upt_rec)
qed

section \<open>Down-sampling in the jackknife variant\<close>

lemma jackknife_down_sample_keeps_randoms:
  "fst (snd (snd (jackknife_down_sample shuffle g sample1 sample2 randoms max_sample_size)))
     = randoms"
  by (simp add: jackknife_down_sample_def split: prod.splits)

text \<open>
  C8. One data point, a random catalogue of two points, \<^verbatim>\<open>max_sample_size = 1\<close>: after the
  down-sampling block the random catalogue still has its two points, and \<^verbatim>\<open>sample1\<close> is
  a point of the random catalogue.
\<close>

theorem oversized_randoms_overwrite_sample1:
  "jackknife_down_sample keep_order g (Sample 3 [[0, 0, 0]]) (Sample 3 [[0, 0, 0]])
      (Sample 3 [[5, 5, 5], [6, 6, 6]]) 1
   = (Sample 3 [[5, 5, 5]], Sample 3 [[0, 0, 0]], Sample 3 [[5, 5, 5], [6, 6, 6]], g)"
  by (simp add: jackknife_down_sample_def down_sample_data_def down_sample_def keep_order_def
      len_def np_all_eq_def broadcastable_def bdim_def bget_def upt_rec)

section \<open>The angular function with neither auto- nor cross-correlation\<close>

lemma ang_pair_counts_skipped:
  "\<exists>DDs. ang_pair_counts npairs x1 x2 bins N_threads False False comm = Inr DDs"
  by (simp add: ang_pair_counts_def Let_def)

lemma ang_random_counts_analytic:
  "\<exists>DRs. ang_random_counts npairs x1 x2 None bins True N_threads do_RR do_DR comm = Inr DRs"
  by (simp add: ang_random_counts_def Let_def)

lemma to_xyz_ok: "2 \<le> ncols s \<Longrightarrow> \<exists>x. to_xyz s2c s = Inr x"
  by (simp add: to_xyz_def)

lemma requirements_supported:
  assumes "estimator \<in> set list_estimators"
  shows "TP_estimator_requirements estimator
           = Inr (True, estimator \<noteq> ''Natural'', estimator \<noteq> ''Davis-Peebles'')"
  using est_cases [OF assms]
proof (elim disjE)
  assume "estimator = ''Natural''"
  then show ?thesis by (simp add: TP_estimator_requirements_def)
next
  assume "estimator = ''Davis-Peebles''"
  then show ?thesis by (simp add: TP_estimator_requirements_def)
next
  assume "estimator = ''Hewett''"
  then show ?thesis by (simp add: TP_estimator_requirements_def)
next
  assume "estimator = ''Hamilton''"
  then show ?thesis by (simp add: TP_estimator_requirements_def)
next
  assume "estimator = ''Landy-Szalay''"
  then show ?thesis by (simp add: TP_estimator_requirements_def)
qed

lemma ang_random_counts_counted:
  assumes "comm \<noteq> None \<or> 1 \<le> N_threads"
  shows "\<exists>DRs. ang_random_counts npairs x1 x2 (Some R) bins False N_threads do_RR do_DR comm
           = Inr DRs"
proof (cases "comm = None")
  case False
  then show ?thesis by (simp add: ang_random_counts_def)
next
  case True
  then have "1 \<le> N_threads" using assms by simp
  then have "\<not> N_threads \<le> 0" by simp
  then show ?thesis using True by (simp add: ang_random_counts_def Let_def)
qed

text \<open>
  C10, as stated, fails where an input check refuses the call: with three-column samples
  the function raises \<^verbatim>\<open>ValueError\<close> although \<^verbatim>\<open>sample2\<close> is supplied, differs from
  \<^verbatim>\<open>sample1\<close>, and \<^verbatim>\<open>do_auto\<close> and \<^verbatim>\<open>do_cross\<close> are both false.
\<close>

theorem do_nothing_call_raises:
  "angular_two_point_correlation_function ang_npairs_brute spherical_to_cartesian
      chord_to_cartesian keep_order () (Sample 3 [[0, 0, 0]]) [1, 2]
      (Some (Sample 3 [[1, 1, 1]])) None 5 ''Natural'' False False 1 None
   = Inl (ValueError ''angular correlation function requires 2-dimensional data'')"
proof -
  have ds: "down_sample_data keep_order () (Sample 3 [[0, 0, 0]]) (Sample 3 [[1, 1, 1]]) 5
      = (Sample 3 [[0, 0, 0]], Sample 3 [[1, 1, 1]], ())"
    by (simp add: down_sample_data_def len_def)
  have k: "ncols (Sample 3 [[0, 0, 0]]) \<noteq> 2" by simp
  show ?thesis
    unfolding angular_two_point_correlation_function_def Let_def
    by (simp only: option.case ds prod.case k if_True simp_thms)
qed

text \<open>
  C10, amended. When \<^verbatim>\<open>sample2\<close> is supplied, the samples after down-sampling are not
  element-wise equal, \<^verbatim>\<open>do_auto\<close> and \<^verbatim>\<open>do_cross\<close> are both false and the call passes
  the input checks (two-column samples, a supported estimator, a random catalogue, if
  any, with at least two columns and then a communicator or \<open>N_threads \<ge> 1\<close>), the
  function ends without a \<^verbatim>\<open>return\<close>: its value is \<^verbatim>\<open>None\<close>.
\<close>

theorem no_auto_no_cross_returns_None:
  assumes ds: "down_sample_data shuffle g sample1 s2 max_sample_size = (s1', s2', g')"
    and ne: "\<not> np_all_eq s2' s1'"
    and k1: "ncols sample1 = 2" and k2: "ncols s2 = 2"
    and est: "estimator \<in> set list_estimators"
    and rnd: "case randoms of None \<Rightarrow> True
              | Some R \<Rightarrow> 2 \<le> ncols R \<and> (comm \<noteq> None \<or> 1 \<le> N_threads)"
  shows "angular_two_point_correlation_function npairs s2c chord shuffle g sample1 theta_bins
           (Some s2) randoms max_sample_size estimator False False N_threads comm
         = Inr ANone"
proof -
  let ?do_DR = "estimator \<noteq> ''Natural''" and ?do_RR = "estimator \<noteq> ''Davis-Peebles''"
  have c1: "ncols s1' = 2" and c2: "ncols s2' = 2"
    using ncols_down_sample_data [OF ds] k1 k2 by simp_all
  have req: "TP_estimator_requirements estimator = Inr (True, ?do_DR, ?do_RR)"
    by (rule requirements_supported [OF est])
  obtain x1 where x1: "to_xyz s2c s1' = Inr x1" using to_xyz_ok [of s1' s2c] c1 by auto
  obtain x2 where x2: "to_xyz s2c s2' = Inr x2" using to_xyz_ok [of s2' s2c] c2 by auto
  obtain DDs where dd: "ang_pair_counts npairs x1 x2 (map chord theta_bins) N_threads False False
      comm = Inr DDs"
    using ang_pair_counts_skipped by blast
  show ?thesis
  proof (cases randoms)
    case None
    obtain DRs where dr: "ang_random_counts npairs x1 x2 None (map chord theta_bins) True
        N_threads ?do_RR ?do_DR comm = Inr DRs"
      using ang_random_counts_analytic by blast
    show ?thesis
      unfolding angular_two_point_correlation_function_def None Let_def
      using ne est
      by (simp only: ds c1 c2 req x1 x2 dd dr bind_err_def prod.case sum.case option.case
          simp_thms if_True if_False split: prod.splits)
  next
    case (Some R)
    then have r2: "2 \<le> ncols R" and t: "comm \<noteq> None \<or> 1 \<le> N_threads" using rnd by simp_all
    obtain xr where xr: "to_xyz s2c R = Inr xr" using to_xyz_ok [OF r2] by blast
    obtain DRs where dr: "ang_random_counts npairs x1 x2 (Some xr) (map chord theta_bins) False
        N_threads ?do_RR ?do_DR comm = Inr DRs"
      using ang_random_counts_counted [OF t] by blast
    show ?thesis
      unfolding angular_two_point_correlation_function_def Some Let_def
      using ne est
      by (simp only: ds c1 c2 req x1 x2 xr dd dr bind_err_def prod.case sum.case option.case
          simp_thms if_True if_False option.distinct split: prod.splits)
  qed
qed

theorem no_auto_no_cross_returns_None_witness:
  "angular_two_point_correlation_function ang_npairs_brute spherical_to_cartesian
      chord_to_cartesian keep_order () (Sample 2 [[0, 0]]) [1, 2]
      (Some (Sample 2 [[90, 0]])) None 5 ''Natural'' False False 1 None
   = Inr ANone"
proof (rule no_auto_no_cross_returns_None)
  show "down_sample_data keep_order () (Sample 2 [[0, 0]]) (Sample 2 [[90, 0]]) 5
      = (Sample 2 [[0, 0]], Sample 2 [[90, 0]], ())"
    by (simp add: down_sample_data_def len_def)
  show "\<not> np_all_eq (Sample 2 [[90, 0]]) (Sample 2 [[0, 0]])"
    by (simp add: np_all_eq_def len_def broadcastable_def bdim_def bget_def upt_rec)
qed (simp_all add: list_estimators_def)

end
